theory Spec2Isabelle
  imports Complex_Main
begin

section \<open>Python exceptions and numpy scalars\<close>

text \<open>
  An exception that leaves a function is a value \<open>Inl e\<close> of the result type
  \<open>py_error + 'a\<close>. \<open>Raised msg\<close> stands for whatever a collaborator (inference client,
  estimator, numpy routine) throws.
\<close>

datatype py_error =
  AssertionError | AttributeError | IndexError | TypeError | NotFittedError | Raised string

text \<open>
  A numpy \<open>float64\<close> scalar: a finite value, one of the two infinities, or not-a-number.
  Finite results of an operation are the exact real results; the rounding of the binary
  format (and with it overflow and underflow of finite results) is not part of this model.
\<close>

datatype np_float = Finite real | PosInf | NegInf | NaN

text \<open>
  \<open>a / b\<close> on numpy scalars. Division by zero does not raise: numpy warns and gives
  \<open>nan\<close> for \<open>0 / 0\<close> and a signed infinity otherwise. The zero denominators that occur
  here come from \<open>float\<close> of an integer or from a mean of squares, so they are \<open>+0.0\<close>.
\<close>

fun np_true_divide :: "np_float \<Rightarrow> np_float \<Rightarrow> np_float" where
  "np_true_divide NaN y = NaN"
| "np_true_divide x NaN = NaN"
| "np_true_divide (Finite a) (Finite b) =
     (if b = 0 then (if a = 0 then NaN else if 0 < a then PosInf else NegInf)
      else Finite (a / b))"
| "np_true_divide (Finite a) y = Finite 0"
| "np_true_divide PosInf (Finite b) = (if 0 \<le> b then PosInf else NegInf)"
| "np_true_divide NegInf (Finite b) = (if 0 \<le> b then NegInf else PosInf)"
| "np_true_divide x y = NaN"

fun np_add :: "np_float \<Rightarrow> np_float \<Rightarrow> np_float" where
  "np_add NaN y = NaN"
| "np_add x NaN = NaN"
| "np_add (Finite a) (Finite b) = Finite (a + b)"
| "np_add PosInf NegInf = NaN"
| "np_add NegInf PosInf = NaN"
| "np_add (Finite a) y = y"
| "np_add x y = x"

text \<open>\<open>a < b\<close> on numpy scalars: every comparison with \<open>nan\<close> is false.\<close>

fun np_less :: "np_float \<Rightarrow> np_float \<Rightarrow> bool" where
  "np_less NaN y = False"
| "np_less x NaN = False"
| "np_less (Finite a) (Finite b) = (a < b)"
| "np_less x PosInf = (x \<noteq> PosInf)"
| "np_less NegInf y = (y \<noteq> NegInf)"
| "np_less x y = False"

text \<open>\<open>np.nanmean\<close> of a one-dimensional array: the mean of the entries that are not
  \<open>nan\<close>; \<open>nan\<close> (with a warning, not an exception) when there is none.\<close>

definition np_nanmean :: "np_float list \<Rightarrow> np_float" where
  "np_nanmean xs =
     (let ys = filter (\<lambda>x. x \<noteq> NaN) xs
      in if ys = [] then NaN
         else np_true_divide (foldl np_add (Finite 0) ys) (Finite (real (length ys))))"

section \<open>Inference client and result cache\<close>

text \<open>The data frame returned by the sampler: three aligned columns.\<close>

record sample_result =
  SMILES :: "string list"
  embeddings :: "real list list"
  embeddings_dim :: "int list list"

record embedding_result =
  embedding :: "real list"
  dim :: "int list"

text \<open>The inference client (\<open>self.inferrer\<close>): its class name and the two calls the
  metrics make. Each call may raise.\<close>

record inferrer =
  class_name :: string
  find_similars_smiles ::
    "string \<Rightarrow> int \<Rightarrow> real \<Rightarrow> bool \<Rightarrow> bool \<Rightarrow> py_error + sample_result"
  smiles_to_embedding :: "string \<Rightarrow> int option \<Rightarrow> py_error + embedding_result"

type_synonym sampling_key = "string \<times> string \<times> int \<times> real \<times> bool \<times> bool"

text \<open>
  The mutable world a metric runs in: the two tables of the result cache, and a log of
  the calls made to the inference client (the log is what "the client was invoked" means
  in the statements below; the program itself keeps no such log). \<open>cache_overwrites\<close>
  is the one choice the cache's contract leaves to its implementation: whether an insert
  for a fingerprint that is already present replaces the entry or is a no-op.
\<close>

record bench_state =
  sampling_table :: "sampling_key \<rightharpoonup> (string list \<times> real list list \<times> int list list)"
  embedding_table :: "string \<rightharpoonup> (real list \<times> int list)"
  sampler_calls :: "(string \<times> int \<times> real \<times> bool \<times> bool) list"
  embedder_calls :: "(string \<times> int option) list"
  cache_overwrites :: bool

text \<open>
  Modelled from the spec: the sampling half of the Result Cache (\<open>sample_cache\<close>, module
  \<open>cuchembm.data\<close>, which is not among the sources). \<open>fetch\<close> is a pure lookup by the
  request fingerprint that returns nothing when the fingerprint is absent.
\<close>

definition fetch_sampling_data ::
  "bench_state \<Rightarrow> string \<Rightarrow> string \<Rightarrow> int \<Rightarrow> real \<Rightarrow> bool \<Rightarrow> bool \<Rightarrow> string list option" where
  "fetch_sampling_data st model_name smiles num_samples scaled_radius force_unique sanitize =
     map_option fst
       (sampling_table st (model_name, smiles, num_samples, scaled_radius, force_unique, sanitize))"

text \<open>
  Modelled from the spec: \<open>insert\<close> of the sampling half of the Result Cache. An absent
  fingerprint gets the result, and fetching it then returns that result; for a present
  fingerprint the insert is an overwrite or a no-op, as the implementation chooses. No
  other fingerprint is touched.
\<close>

definition insert_sampling_data ::
  "bench_state \<Rightarrow> string \<Rightarrow> string \<Rightarrow> int \<Rightarrow> real \<Rightarrow> bool \<Rightarrow> bool \<Rightarrow>
   string list \<Rightarrow> real list list \<Rightarrow> int list list \<Rightarrow> bench_state" where
  "insert_sampling_data st model_name smiles num_samples scaled_radius force_unique sanitize
       generated_smiles embs embs_dim =
     (if cache_overwrites st
         \<or> sampling_table st
              (model_name, smiles, num_samples, scaled_radius, force_unique, sanitize) = None
      then st\<lparr>sampling_table := (sampling_table st)
              ((model_name, smiles, num_samples, scaled_radius, force_unique, sanitize)
                 \<mapsto> (generated_smiles, embs, embs_dim))\<rparr>
      else st)"

text \<open>
  Modelled from the spec: the embedding half of the Result Cache. The metric passes the
  molecule string alone as the key.
\<close>

definition fetch_embedding_data :: "bench_state \<Rightarrow> string \<Rightarrow> (real list \<times> int list) option" where
  "fetch_embedding_data st smiles = embedding_table st smiles"

text \<open>
  Modelled from the spec: \<open>insert\<close> of the embedding half of the Result Cache, with the
  same contract as the sampling half.
\<close>

definition insert_embedding_data ::
  "bench_state \<Rightarrow> string \<Rightarrow> real list \<Rightarrow> int list \<Rightarrow> bench_state" where
  "insert_embedding_data st smiles emb emb_dim =
     (if cache_overwrites st \<or> embedding_table st smiles = None
      then st\<lparr>embedding_table := (embedding_table st)(smiles \<mapsto> (emb, emb_dim))\<rparr>
      else st)"

section \<open>Sampling metrics (\<open>metrics/sampling.py\<close>)\<close>

datatype metric_kind = Validity | Unique | Novelty

text \<open>
  A sampling metric object: the subclass it is an instance of, its inference client, the
  dataset's column of molecule strings, and its two chemistry collaborators:
  \<open>Chem.MolFromSmiles\<close> (only whether the returned molecule is truthy matters) and the
  training set's \<open>is_known_smiles\<close> (used by Novelty).
\<close>

record sample_metric =
  kind :: metric_kind
  metric_inferrer :: inferrer
  dataset_smiles :: "string list"
  MolFromSmiles :: "string \<Rightarrow> bool"
  is_known_smiles :: "string \<Rightarrow> bool"

text \<open>\<open>BaseSampleMetric._find_similars_smiles\<close>. \<open>not generated_smiles\<close> holds for
  \<open>None\<close> and for the empty list.\<close>

definition BaseSampleMetric_find_similars_smiles ::
  "sample_metric \<Rightarrow> bench_state \<Rightarrow> string \<Rightarrow> int \<Rightarrow> real \<Rightarrow> bool \<Rightarrow> bool \<Rightarrow>
   py_error + (string list \<times> bench_state)" where
  "BaseSampleMetric_find_similars_smiles self st smiles num_samples scaled_radius force_unique sanitize =
     (let fetched = fetch_sampling_data st (class_name (metric_inferrer self))
                      smiles num_samples scaled_radius force_unique sanitize
      in if fetched = None \<or> fetched = Some [] then
           (case find_similars_smiles (metric_inferrer self)
                   smiles num_samples scaled_radius force_unique sanitize of
              Inl e \<Rightarrow> Inl e
            | Inr result \<Rightarrow>
                let st1 = st\<lparr>sampler_calls := sampler_calls st @
                               [(smiles, num_samples, scaled_radius, force_unique, sanitize)]\<rparr>;
                    generated_smiles = SMILES result;
                    embs = embeddings result;
                    embs_dim = embeddings_dim result
                in Inr (generated_smiles,
                        insert_sampling_data st1 (class_name (metric_inferrer self))
                          smiles num_samples scaled_radius force_unique sanitize
                          generated_smiles embs embs_dim))
         else Inr (the fetched, st))"

text \<open>\<open>BaseSampleMetric._calculate_metric\<close>: \<open>np.nansum\<close> of an integer array is its sum;
  the quotient is a numpy division.\<close>

definition BaseSampleMetric_calculate_metric :: "int list \<Rightarrow> int \<Rightarrow> np_float" where
  "BaseSampleMetric_calculate_metric metric_array num_samples =
     (let total_samples = int (length metric_array) * num_samples
      in np_true_divide (Finite (of_int (sum_list metric_array))) (Finite (of_int total_samples)))"

text \<open>\<open>Validity.sample\<close>: the loop over \<open>generated_smiles[1:]\<close> is the fold.\<close>

definition Validity_sample ::
  "sample_metric \<Rightarrow> bench_state \<Rightarrow> string \<Rightarrow> int \<Rightarrow> real \<Rightarrow> py_error + (int \<times> bench_state)" where
  "Validity_sample self st smiles num_samples radius =
     (case BaseSampleMetric_find_similars_smiles self st smiles num_samples radius False False of
        Inl e \<Rightarrow> Inl e
      | Inr (generated_smiles, st') \<Rightarrow>
          Inr (foldl (\<lambda>valid_ctr new_smiles.
                        if MolFromSmiles self new_smiles then valid_ctr + 1 else valid_ctr)
                 0 (drop 1 generated_smiles), st'))"

text \<open>\<open>Unique.sample\<close>: \<open>len(set(generated_smiles[1:]))\<close>.\<close>

definition Unique_sample ::
  "sample_metric \<Rightarrow> bench_state \<Rightarrow> string \<Rightarrow> int \<Rightarrow> real \<Rightarrow> py_error + (int \<times> bench_state)" where
  "Unique_sample self st smiles num_samples radius =
     (case BaseSampleMetric_find_similars_smiles self st smiles num_samples radius False False of
        Inl e \<Rightarrow> Inl e
      | Inr (generated_smiles, st') \<Rightarrow>
          Inr (int (card (set (drop 1 generated_smiles))), st'))"

definition smiles_in_train :: "sample_metric \<Rightarrow> string \<Rightarrow> bool" where
  "smiles_in_train self smiles = is_known_smiles self smiles"

text \<open>\<open>Novelty.sample\<close>: the sum runs over the whole of \<open>generated_smiles\<close>; a Python
  \<open>True\<close> adds 1.\<close>

definition Novelty_sample ::
  "sample_metric \<Rightarrow> bench_state \<Rightarrow> string \<Rightarrow> int \<Rightarrow> real \<Rightarrow> py_error + (int \<times> bench_state)" where
  "Novelty_sample self st smiles num_samples radius =
     (case BaseSampleMetric_find_similars_smiles self st smiles num_samples radius False False of
        Inl e \<Rightarrow> Inl e
      | Inr (generated_smiles, st') \<Rightarrow>
          Inr (sum_list (map (\<lambda>x. of_bool (smiles_in_train self x)) generated_smiles), st'))"

text \<open>\<open>self.sample\<close>, dispatched on the subclass.\<close>

definition sample ::
  "sample_metric \<Rightarrow> bench_state \<Rightarrow> string \<Rightarrow> int \<Rightarrow> real \<Rightarrow> py_error + (int \<times> bench_state)" where
  "sample self st smiles num_samples radius =
     (case kind self of
        Validity \<Rightarrow> Validity_sample self st smiles num_samples radius
      | Unique \<Rightarrow> Unique_sample self st smiles num_samples radius
      | Novelty \<Rightarrow> Novelty_sample self st smiles num_samples radius)"

text \<open>The loop of \<open>BaseSampleMetric.sample_many\<close> over the rows that are left, with the
  results appended so far.\<close>

fun sample_many_loop ::
  "sample_metric \<Rightarrow> int \<Rightarrow> real \<Rightarrow> string list \<Rightarrow> int list \<Rightarrow> bench_state \<Rightarrow>
   py_error + (int list \<times> bench_state)" where
  "sample_many_loop self num_samples radius [] metric_result st = Inr (metric_result, st)"
| "sample_many_loop self num_samples radius (smiles # rest) metric_result st =
     (case sample self st smiles num_samples radius of
        Inl e \<Rightarrow> Inl e
      | Inr (result, st') \<Rightarrow>
          sample_many_loop self num_samples radius rest (metric_result @ [result]) st')"

definition sample_many ::
  "sample_metric \<Rightarrow> bench_state \<Rightarrow> string list \<Rightarrow> int \<Rightarrow> real \<Rightarrow>
   py_error + (int list \<times> bench_state)" where
  "sample_many self st smiles_dataset num_samples radius =
     sample_many_loop self num_samples radius smiles_dataset [] st"

text \<open>The \<open>pd.Series\<close> that \<open>calculate\<close> returns.\<close>

record sampling_series =
  series_name :: string
  series_value :: np_float
  series_radius :: real
  series_num_samples :: int

definition metric_name :: "metric_kind \<Rightarrow> string" where
  "metric_name k = (case k of Validity \<Rightarrow> ''validity'' | Unique \<Rightarrow> ''unique'' | Novelty \<Rightarrow> ''novelty'')"

text \<open>\<open>BaseSampleMetric.calculate\<close>.\<close>

definition calculate ::
  "sample_metric \<Rightarrow> bench_state \<Rightarrow> real \<Rightarrow> int \<Rightarrow> py_error + (sampling_series \<times> bench_state)" where
  "calculate self st radius num_samples =
     (case sample_many self st (dataset_smiles self) num_samples radius of
        Inl e \<Rightarrow> Inl e
      | Inr (metric_array, st') \<Rightarrow>
          let metric = BaseSampleMetric_calculate_metric metric_array num_samples
          in Inr (\<lparr>series_name = metric_name (kind self), series_value = metric,
                    series_radius = radius, series_num_samples = num_samples\<rparr>, st'))"

section \<open>Embedding metrics (\<open>metrics/embedding.py\<close>)\<close>

text \<open>
  A \<open>BaseEmbeddingMetric\<close> object: the inference client and the columns of the dataset
  that \<open>__init__\<close> copies (\<open>dataset.smiles['canonical_smiles']\<close>, the fingerprint rows,
  the property columns by name, and \<open>dataset.max_seq_len\<close>).
\<close>

record embedding_metric =
  emb_inferrer :: inferrer
  smiles_dataset :: "string list"
  fingerprint_dataset :: "real list list"
  smiles_properties :: "(string \<times> real list) list"
  dataset_max_seq_len :: "int option"

text \<open>\<open>BaseEmbeddingMetric._find_embedding\<close>. A fetched entry is a pair, hence truthy;
  \<open>not embedding_results\<close> holds for \<open>None\<close> only.\<close>

definition BaseEmbeddingMetric_find_embedding ::
  "'a embedding_metric_scheme \<Rightarrow> bench_state \<Rightarrow> string \<Rightarrow> int option \<Rightarrow>
   py_error + ((real list \<times> int list) \<times> bench_state)" where
  "BaseEmbeddingMetric_find_embedding self st smiles max_seq_len =
     (let embedding_results = fetch_embedding_data st smiles
      in if embedding_results = None \<or> length (snd (the embedding_results)) = 1 then
           (case smiles_to_embedding (emb_inferrer self) smiles max_seq_len of
              Inl e \<Rightarrow> Inl e
            | Inr embedding_results \<Rightarrow>
                let st1 = st\<lparr>embedder_calls := embedder_calls st @ [(smiles, max_seq_len)]\<rparr>
                in Inr ((embedding embedding_results, dim embedding_results),
                        insert_embedding_data st1 smiles
                          (embedding embedding_results) (dim embedding_results)))
         else Inr (the embedding_results, st))"

text \<open>
  An n-dimensional numpy array, and the numpy, scikit-learn and scipy routines the
  embedding metrics call. They are collaborators: the metrics' code fixes the order in
  which they are called and what is passed on, not what they compute. Each may raise.
  \<^item> \<open>reshape_squeeze emb dim\<close> is \<open>xpy.array(emb).reshape(dim).squeeze()\<close>;
  \<^item> \<open>zero_rows_from k a\<close> is \<open>a\<close> after \<open>a[k:] = 0.0\<close>;
  \<^item> \<open>mean_tokens k a\<close> is \<open>a[:k].mean(axis=0).squeeze()\<close>;
  \<^item> \<open>flatten a\<close> is \<open>a.flatten()\<close>.
\<close>

record ndarray =
  shape :: "nat list"
  flat :: "real list"

record xpy_lib =
  reshape_squeeze :: "real list \<Rightarrow> int list \<Rightarrow> py_error + ndarray"
  zero_rows_from :: "nat \<Rightarrow> ndarray \<Rightarrow> py_error + ndarray"
  mean_tokens :: "nat \<Rightarrow> ndarray \<Rightarrow> py_error + real list"
  flatten :: "ndarray \<Rightarrow> real list"
  pairwise_distances :: "real list list \<Rightarrow> py_error + real list list"
  tanimoto_calculate :: "real list list \<Rightarrow> py_error + real list list"
  spearmanr :: "real list list \<Rightarrow> real list list \<Rightarrow> int option \<Rightarrow> py_error + np_float list"

text \<open>\<open>BaseEmbeddingMetric.encode\<close>. \<open>dim\<close> is a sequence, so \<open>dim == 2\<close> is false and the
  zero padding is \<open>embedding[len(smiles):] = 0.0\<close>.\<close>

definition encode ::
  "xpy_lib \<Rightarrow> 'a embedding_metric_scheme \<Rightarrow> bench_state \<Rightarrow> string \<Rightarrow> bool \<Rightarrow> bool \<Rightarrow>
   int option \<Rightarrow> py_error + (real list \<times> bench_state)" where
  "encode xpy self st smiles zero_padded_vals average_tokens max_seq_len =
     (case BaseEmbeddingMetric_find_embedding self st smiles max_seq_len of
        Inl e \<Rightarrow> Inl e
      | Inr ((emb, emb_dim), st') \<Rightarrow>
          (case reshape_squeeze xpy emb emb_dim of
             Inl e \<Rightarrow> Inl e
           | Inr arr \<Rightarrow>
               (case (if zero_padded_vals then zero_rows_from xpy (length smiles) arr
                      else Inr arr) of
                  Inl e \<Rightarrow> Inl e
                | Inr arr' \<Rightarrow>
                    (case (if average_tokens then mean_tokens xpy (length smiles) arr'
                           else Inr (flatten xpy arr')) of
                       Inl e \<Rightarrow> Inl e
                     | Inr vec \<Rightarrow> Inr (vec, st')))))"

text \<open>The loop of \<open>BaseEmbeddingMetric.encode_many\<close> over the molecules that are left.\<close>

fun encode_many_loop ::
  "xpy_lib \<Rightarrow> 'a embedding_metric_scheme \<Rightarrow> bool \<Rightarrow> bool \<Rightarrow> int option \<Rightarrow> string list \<Rightarrow>
   real list list \<Rightarrow> bench_state \<Rightarrow> py_error + (real list list \<times> bench_state)" where
  "encode_many_loop xpy self zero_padded_vals average_tokens max_seq_len [] embs st =
     Inr (embs, st)"
| "encode_many_loop xpy self zero_padded_vals average_tokens max_seq_len (smiles # rest) embs st =
     (case encode xpy self st smiles zero_padded_vals average_tokens max_seq_len of
        Inl e \<Rightarrow> Inl e
      | Inr (emb, st') \<Rightarrow>
          encode_many_loop xpy self zero_padded_vals average_tokens max_seq_len rest
            (embs @ [emb]) st')"

text \<open>\<open>BaseEmbeddingMetric.encode_many\<close>. \<open>not max_seq_len\<close> holds for \<open>None\<close> and 0.\<close>

definition encode_many ::
  "xpy_lib \<Rightarrow> 'a embedding_metric_scheme \<Rightarrow> bench_state \<Rightarrow> int option \<Rightarrow> bool \<Rightarrow> bool \<Rightarrow>
   py_error + (real list list \<times> bench_state)" where
  "encode_many xpy self st max_seq_len zero_padded_vals average_tokens =
     (let max_seq_len' = (if max_seq_len = None \<or> max_seq_len = Some 0
                          then dataset_max_seq_len self else max_seq_len)
      in encode_many_loop xpy self zero_padded_vals average_tokens max_seq_len'
           (smiles_dataset self) [] st)"

subsection \<open>Nearest-neighbour correlation\<close>

definition NearestNeighborCorrelation_calculate_metric ::
  "xpy_lib \<Rightarrow> real list list \<Rightarrow> real list list \<Rightarrow> int option \<Rightarrow> py_error + np_float list" where
  "NearestNeighborCorrelation_calculate_metric xpy embs fingerprints top_k =
     (case pairwise_distances xpy embs of
        Inl e \<Rightarrow> Inl e
      | Inr embeddings_dist \<Rightarrow>
          (case tanimoto_calculate xpy fingerprints of
             Inl e \<Rightarrow> Inl e
           | Inr fingerprints_dist \<Rightarrow> spearmanr xpy fingerprints_dist embeddings_dist top_k))"

record nnc_result =
  nnc_name :: string
  nnc_value :: np_float
  nnc_top_k :: int

text \<open>\<open>NearestNeighborCorrelation.calculate\<close>. \<open>xpy.asarray\<close> of the list of encoded
  molecules has one row for each, so \<open>embeddings.shape[0]\<close> is the length of the list;
  \<open>not top_k\<close> holds for \<open>None\<close> and 0.\<close>

definition NearestNeighborCorrelation_calculate ::
  "xpy_lib \<Rightarrow> 'a embedding_metric_scheme \<Rightarrow> bench_state \<Rightarrow> int option \<Rightarrow>
   py_error + (nnc_result \<times> bench_state)" where
  "NearestNeighborCorrelation_calculate xpy self st top_k =
     (case encode_many xpy self st None True False of
        Inl e \<Rightarrow> Inl e
      | Inr (embs, st') \<Rightarrow>
          (case NearestNeighborCorrelation_calculate_metric xpy embs
                  (fingerprint_dataset self) top_k of
             Inl e \<Rightarrow> Inl e
           | Inr metric \<Rightarrow>
               let metric' = np_nanmean metric;
                   top_k' = (if top_k = None \<or> top_k = Some 0
                             then int (length embs) - 1 else the top_k)
               in Inr (\<lparr>nnc_name = ''nearest neighbor correlation'', nnc_value = metric',
                         nnc_top_k = top_k'\<rparr>, st')))"

subsection \<open>Modelability\<close>

text \<open>
  The estimator object handed to the grid search: its current hyperparameters and, once
  \<open>fit\<close> has run, the fitted model. \<open>set_params\<close> and \<open>fit\<close> mutate it.
\<close>

record ('p, 'm) estimator =
  est_params :: 'p
  est_fitted :: "'m option"

text \<open>
  The scikit-learn (or cuML) routines of the grid search, as collaborators:
  \<^item> \<open>fit_fn p x y\<close>: the model that \<open>fit\<close> computes under hyperparameters \<open>p\<close>, or the
    exception it raises;
  \<^item> \<open>predict_fn m x\<close>: the predictions of a fitted model;
  \<^item> \<open>ParameterGrid d\<close>: the hyperparameter combinations of a grid, in iteration order;
  \<^item> \<open>KFold_split k x y\<close>: the (train, test) index pairs of
    \<open>KFold(n_splits=k, shuffle=True, random_state=0).split(x, y)\<close>;
  \<^item> the \<open>StandardScaler\<close> calls: \<open>fit_transform\<close> on the features, \<open>fit_transform\<close> on the
    target (giving the fitted scaler as well) and \<open>inverse_transform\<close> of that scaler.
\<close>

record ('d, 'p, 'm) sklearn_lib =
  fit_fn :: "'p \<Rightarrow> real list list \<Rightarrow> real list \<Rightarrow> py_error + 'm"
  predict_fn :: "'m \<Rightarrow> real list list \<Rightarrow> py_error + real list"
  mean_squared_error :: "real list \<Rightarrow> real list \<Rightarrow> py_error + np_float"
  ParameterGrid :: "'d \<Rightarrow> 'p list"
  KFold_split :: "int \<Rightarrow> real list list \<Rightarrow> real list \<Rightarrow> py_error + (nat list \<times> nat list) list"
  data_fit_transform :: "real list list \<Rightarrow> py_error + real list list"
  prop_fit_transform :: "real list \<Rightarrow> py_error + (real list \<times> (real list \<times> real list))"
  prop_inverse_transform :: "(real list \<times> real list) \<Rightarrow> real list \<Rightarrow> py_error + real list"

text \<open>A \<open>Modelability\<close> object. \<open>normalize_inputs\<close> decides whether \<open>norm_data\<close> and
  \<open>norm_prop\<close> are scalers or both \<open>False\<close>.\<close>

record modelability = embedding_metric +
  n_splits :: int
  return_predictions :: bool
  normalize_inputs :: bool

definition set_params :: "('p, 'm) estimator \<Rightarrow> 'p \<Rightarrow> ('p, 'm) estimator" where
  "set_params est param = est\<lparr>est_params := param\<rparr>"

definition estimator_fit ::
  "('d, 'p, 'm) sklearn_lib \<Rightarrow> ('p, 'm) estimator \<Rightarrow> real list list \<Rightarrow> real list \<Rightarrow>
   py_error + ('p, 'm) estimator" where
  "estimator_fit sk est xtrain ytrain =
     (case fit_fn sk (est_params est) xtrain ytrain of
        Inl e \<Rightarrow> Inl e
      | Inr m \<Rightarrow> Inr (est\<lparr>est_fitted := Some m\<rparr>))"

definition estimator_predict ::
  "('d, 'p, 'm) sklearn_lib \<Rightarrow> ('p, 'm) estimator \<Rightarrow> real list list \<Rightarrow> py_error + real list" where
  "estimator_predict sk est xs =
     (case est_fitted est of
        None \<Rightarrow> Inl NotFittedError
      | Some m \<Rightarrow> predict_fn sk m xs)"

text \<open>\<open>data[idx]\<close> with an array of row indices: an index out of range raises.\<close>

definition take_idx :: "'a list \<Rightarrow> nat list \<Rightarrow> py_error + 'a list" where
  "take_idx xs idx =
     (if list_all (\<lambda>i. i < length xs) idx then Inr (map (\<lambda>i. xs ! i) idx) else Inl IndexError)"

text \<open>The inner loop of \<open>gpu_gridsearch_cv\<close> over the folds that are left.\<close>

fun kfold_loop ::
  "('d, 'p, 'm) sklearn_lib \<Rightarrow> real list list \<Rightarrow> real list \<Rightarrow> (nat list \<times> nat list) list \<Rightarrow>
   ('p, 'm) estimator \<Rightarrow> np_float list \<Rightarrow> py_error + (np_float list \<times> ('p, 'm) estimator)" where
  "kfold_loop sk xdata ydata [] est kfold_mse = Inr (kfold_mse, est)"
| "kfold_loop sk xdata ydata ((train_idx, test_idx) # folds) est kfold_mse =
     (case take_idx xdata train_idx of Inl e \<Rightarrow> Inl e | Inr xtrain \<Rightarrow>
     (case take_idx xdata test_idx of Inl e \<Rightarrow> Inl e | Inr xtest \<Rightarrow>
     (case take_idx ydata train_idx of Inl e \<Rightarrow> Inl e | Inr ytrain \<Rightarrow>
     (case take_idx ydata test_idx of Inl e \<Rightarrow> Inl e | Inr ytest \<Rightarrow>
     (case estimator_fit sk est xtrain ytrain of Inl e \<Rightarrow> Inl e | Inr est' \<Rightarrow>
     (case estimator_predict sk est' xtest of Inl e \<Rightarrow> Inl e | Inr ypred \<Rightarrow>
     (case mean_squared_error sk ypred ytest of Inl e \<Rightarrow> Inl e | Inr mse \<Rightarrow>
        kfold_loop sk xdata ydata folds est' (kfold_mse @ [mse]))))))))"

type_synonym 'p best = "np_float \<times> 'p option \<times> real list option"

text \<open>The body of the outer loop of \<open>gpu_gridsearch_cv\<close> for one hyperparameter
  combination: from the best triple and the estimator before it to those after it.\<close>

definition gridsearch_step ::
  "('d, 'p, 'm) sklearn_lib \<Rightarrow> modelability \<Rightarrow> real list list \<Rightarrow> real list \<Rightarrow> 'p \<Rightarrow>
   'p best \<Rightarrow> ('p, 'm) estimator \<Rightarrow> py_error + ('p best \<times> ('p, 'm) estimator)" where
  "gridsearch_step sk self xdata ydata param best est =
     (case best of (best_score, best_param, best_pred) \<Rightarrow>
      let est1 = set_params est param
      in (case KFold_split sk (n_splits self) xdata ydata of
            Inl e \<Rightarrow> Inl e
          | Inr folds \<Rightarrow>
              (case kfold_loop sk xdata ydata folds est1 [] of
                 Inl e \<Rightarrow> Inl e
               | Inr (kfold_mse, est2) \<Rightarrow>
                   let avg_mse = np_nanmean kfold_mse
                   in if np_less avg_mse best_score then
                        (if return_predictions self then
                           (case estimator_predict sk est2 xdata of
                              Inl e \<Rightarrow> Inl e
                            | Inr pred \<Rightarrow> Inr ((avg_mse, Some param, Some pred), est2))
                         else Inr ((avg_mse, Some param, best_pred), est2))
                      else Inr ((best_score, best_param, best_pred), est2))))"

fun gridsearch_loop ::
  "('d, 'p, 'm) sklearn_lib \<Rightarrow> modelability \<Rightarrow> real list list \<Rightarrow> real list \<Rightarrow> 'p list \<Rightarrow>
   'p best \<Rightarrow> ('p, 'm) estimator \<Rightarrow> py_error + ('p best \<times> ('p, 'm) estimator)" where
  "gridsearch_loop sk self xdata ydata [] best est = Inr (best, est)"
| "gridsearch_loop sk self xdata ydata (param # rest) best est =
     (case gridsearch_step sk self xdata ydata param best est of
        Inl e \<Rightarrow> Inl e
      | Inr (best', est') \<Rightarrow> gridsearch_loop sk self xdata ydata rest best' est')"

text \<open>\<open>Modelability.gpu_gridsearch_cv\<close>: the assertion on the row counts, then the loop
  from \<open>(np.inf, None, None)\<close>.\<close>

definition gpu_gridsearch_cv ::
  "('d, 'p, 'm) sklearn_lib \<Rightarrow> modelability \<Rightarrow> ('p, 'm) estimator \<Rightarrow> 'd \<Rightarrow>
   real list list \<Rightarrow> real list \<Rightarrow> py_error + ('p best \<times> ('p, 'm) estimator)" where
  "gpu_gridsearch_cv sk self est param_dict xdata ydata =
     (if length xdata \<noteq> length ydata then Inl AssertionError
      else gridsearch_loop sk self xdata ydata (ParameterGrid sk param_dict)
             (PosInf, None, None) est)"




section \<open>Reference computations and a concrete scenario\<close>

text \<open>The value a call returned, and the state it left, when it did not raise.\<close>

definition returned :: "'e + ('a \<times> 's) \<Rightarrow> 'a option" where
  "returned r = (case r of Inl e \<Rightarrow> None | Inr (v, s) \<Rightarrow> Some v)"

definition final_state :: "'e + ('a \<times> 's) \<Rightarrow> 's option" where
  "final_state r = (case r of Inl e \<Rightarrow> None | Inr (v, s) \<Rightarrow> Some s)"

text \<open>
  The predictions of the estimator as the cross-validation of one hyperparameter
  combination leaves it: fitted on the training rows of the last fold.
\<close>

definition last_fold_predictions ::
  "('d, 'p, 'm) sklearn_lib \<Rightarrow> modelability \<Rightarrow> 'p \<Rightarrow> real list list \<Rightarrow> real list \<Rightarrow>
   py_error + real list" where
  "last_fold_predictions sk self param xdata ydata =
     (case KFold_split sk (n_splits self) xdata ydata of
        Inl e \<Rightarrow> Inl e
      | Inr folds \<Rightarrow>
          if folds = [] then Inl NotFittedError
          else
            (case take_idx xdata (fst (last folds)) of Inl e \<Rightarrow> Inl e | Inr xtrain \<Rightarrow>
            (case take_idx ydata (fst (last folds)) of Inl e \<Rightarrow> Inl e | Inr ytrain \<Rightarrow>
            (case fit_fn sk param xtrain ytrain of Inl e \<Rightarrow> Inl e | Inr m \<Rightarrow>
               predict_fn sk m xdata))))"

text \<open>
  The cross-validation score of one hyperparameter combination: the \<open>nanmean\<close> of the fold
  errors of an estimator set to that combination.
\<close>

definition cv_score ::
  "('d, 'p, 'm) sklearn_lib \<Rightarrow> modelability \<Rightarrow> 'p \<Rightarrow> real list list \<Rightarrow> real list \<Rightarrow>
   py_error + np_float" where
  "cv_score sk self param xdata ydata =
     (case KFold_split sk (n_splits self) xdata ydata of
        Inl e \<Rightarrow> Inl e
      | Inr folds \<Rightarrow>
          (case kfold_loop sk xdata ydata folds \<lparr>est_params = param, est_fitted = None\<rparr> [] of
             Inl e \<Rightarrow> Inl e
           | Inr (kfold_mse, est) \<Rightarrow> Inr (np_nanmean kfold_mse)))"

text \<open>The predictions of an estimator refitted on the full data.\<close>

definition refit_predictions ::
  "('d, 'p, 'm) sklearn_lib \<Rightarrow> 'p \<Rightarrow> real list list \<Rightarrow> real list \<Rightarrow> py_error + real list" where
  "refit_predictions sk param xdata ydata =
     (case fit_fn sk param xdata ydata of Inl e \<Rightarrow> Inl e | Inr m \<Rightarrow> predict_fn sk m xdata)"

text \<open>
  A sequence of cache-guarded lookups, on either path, run from one state: what any
  succession of metric computations amounts to for the cache and the client. It gives
  the state the sequence leaves, or the first exception.
\<close>

datatype lookup_request =
  SamplingRequest string int real bool bool
| EmbeddingRequest string "int option"

fun lookup ::
  "sample_metric \<Rightarrow> 'a embedding_metric_scheme \<Rightarrow> bench_state \<Rightarrow> lookup_request \<Rightarrow>
   py_error + bench_state" where
  "lookup sself eself st (SamplingRequest smiles num_samples scaled_radius force_unique sanitize) =
     (case BaseSampleMetric_find_similars_smiles sself st smiles num_samples scaled_radius
             force_unique sanitize of
        Inl e \<Rightarrow> Inl e
      | Inr (generated_smiles, st') \<Rightarrow> Inr st')"
| "lookup sself eself st (EmbeddingRequest smiles max_seq_len) =
     (case BaseEmbeddingMetric_find_embedding eself st smiles max_seq_len of
        Inl e \<Rightarrow> Inl e
      | Inr (embedding_results, st') \<Rightarrow> Inr st')"

fun lookups ::
  "sample_metric \<Rightarrow> 'a embedding_metric_scheme \<Rightarrow> bench_state \<Rightarrow> lookup_request list \<Rightarrow>
   py_error + bench_state" where
  "lookups sself eself st [] = Inr st"
| "lookups sself eself st (q # qs) =
     (case lookup sself eself st q of
        Inl e \<Rightarrow> Inl e
      | Inr st' \<Rightarrow> lookups sself eself st' qs)"

text \<open>The client calls a run has added to the log of the state it started from.\<close>

definition new_sampler_calls ::
  "bench_state \<Rightarrow> bench_state \<Rightarrow> (string \<times> int \<times> real \<times> bool \<times> bool) list" where
  "new_sampler_calls st0 st = drop (length (sampler_calls st0)) (sampler_calls st)"

definition new_embedder_calls :: "bench_state \<Rightarrow> bench_state \<Rightarrow> (string \<times> int option) list" where
  "new_embedder_calls st0 st = drop (length (embedder_calls st0)) (embedder_calls st)"

text \<open>
  The stubbed inference client of the end-to-end scenario, a dataset of five molecules
  with a validator that accepts exactly them, and a training set that holds \<open>CCO\<close>.
\<close>

definition scenario_inferrer :: inferrer where
  "scenario_inferrer =
     \<lparr>class_name = ''StubInferrer'',
      find_similars_smiles = (\<lambda>smiles num_samples radius force_unique sanitize.
         if smiles = ''CCO''
         then Inr \<lparr>SMILES = [''CCO'', ''CCC'', ''invalid_string'', ''CCO''],
                   embeddings = [], embeddings_dim = []\<rparr>
         else Inr \<lparr>SMILES = [smiles], embeddings = [], embeddings_dim = []\<rparr>),
      smiles_to_embedding = (\<lambda>smiles max_seq_len.
         Inr \<lparr>embedding = [1, 2, 3, 4], dim = [2, 2]\<rparr>)\<rparr>"

definition scenario_metric :: "metric_kind \<Rightarrow> sample_metric" where
  "scenario_metric k =
     \<lparr>kind = k, metric_inferrer = scenario_inferrer,
      dataset_smiles = [''CCO'', ''CCN'', ''CCC'', ''C'', ''O''],
      MolFromSmiles = (\<lambda>s. s \<in> set [''CCO'', ''CCN'', ''CCC'', ''C'', ''O'']),
      is_known_smiles = (\<lambda>s. s = ''CCO'')\<rparr>"

definition empty_state :: bench_state where
  "empty_state = \<lparr>sampling_table = Map.empty, embedding_table = Map.empty,
                   sampler_calls = [], embedder_calls = [], cache_overwrites = False\<rparr>"

definition after_first_sample :: bench_state where
  "after_first_sample =
     insert_sampling_data (empty_state\<lparr>sampler_calls := [(''CCO'', 3, 1 / 10, False, False)]\<rparr>)
       ''StubInferrer'' ''CCO'' 3 (1 / 10) False False
       [''CCO'', ''CCC'', ''invalid_string'', ''CCO''] [] []"

text \<open>An embedding dataset of three molecules, and a cache that holds for \<open>CCO\<close> an
  embedding whose dimensionality descriptor has one entry.\<close>

definition scenario_embedding_metric :: embedding_metric where
  "scenario_embedding_metric =
     \<lparr>emb_inferrer = scenario_inferrer,
      smiles_dataset = [''CCO'', ''CCN'', ''CCC''],
      fingerprint_dataset = [[1, 0], [0, 1], [1, 1]],
      smiles_properties = [(''logp'', [0, 2, 1])],
      dataset_max_seq_len = Some 4\<rparr>"

definition stale_state :: bench_state where
  "stale_state = insert_embedding_data empty_state ''CCO'' [5, 6, 7] [3]"

definition after_stale_lookup :: bench_state where
  "after_stale_lookup =
     insert_embedding_data
       (stale_state\<lparr>embedder_calls := embedder_calls stale_state @ [(''CCO'', Some 4)]\<rparr>)
       ''CCO'' [1, 2, 3, 4] [2, 2]"

definition after_first_embedding :: bench_state where
  "after_first_embedding =
     insert_embedding_data (empty_state\<lparr>embedder_calls := [(''CCO'', Some 4)]\<rparr>)
       ''CCO'' [1, 2, 3, 4] [2, 2]"

definition scenario_requests :: "lookup_request list" where
  "scenario_requests =
     [SamplingRequest ''CCO'' 3 (1 / 10) False False,
      SamplingRequest ''CCN'' 3 (1 / 10) False False,
      EmbeddingRequest ''CCO'' (Some 4),
      SamplingRequest ''CCO'' 3 (1 / 10) False False,
      SamplingRequest ''CCN'' 3 (1 / 10) False False,
      EmbeddingRequest ''CCO'' None]"

text \<open>
  Small stand-ins for the numeric libraries: arrays kept flat, and an estimator whose
  model is its hyperparameter (a slope) with the mean of the training targets (an
  intercept); fitting with a negative hyperparameter raises. Two folds over two rows.
\<close>

definition scenario_xpy :: xpy_lib where
  "scenario_xpy =
     \<lparr>reshape_squeeze = (\<lambda>emb d. Inr \<lparr>shape = map nat d, flat = emb\<rparr>),
      zero_rows_from = (\<lambda>k a.
         Inr (a\<lparr>flat := take k (flat a) @ replicate (length (flat a) - k) 0\<rparr>)),
      mean_tokens = (\<lambda>k a. Inr [sum_list (take k (flat a)) / real k]),
      flatten = flat,
      pairwise_distances = (\<lambda>rows. Inr (map (\<lambda>a. map (\<lambda>b. sum_list a - sum_list b) rows) rows)),
      tanimoto_calculate = (\<lambda>rows. Inr (map (\<lambda>a. map (\<lambda>b. sum_list a - sum_list b) rows) rows)),
      spearmanr = (\<lambda>a b top_k. Inr (map (\<lambda>row. if row = [] then NaN else Finite 1) a))\<rparr>"

definition toy_sklearn :: "(real list, real, real \<times> real) sklearn_lib" where
  "toy_sklearn =
     \<lparr>fit_fn = (\<lambda>p xtrain ytrain.
         if p < 0 then Inl (Raised ''fit failed'')
         else Inr (p, sum_list ytrain / real (length ytrain))),
      predict_fn = (\<lambda>m xs. Inr (map (\<lambda>x. snd m + fst m * sum_list x) xs)),
      mean_squared_error = (\<lambda>ypred ytest.
         Inr (Finite (sum_list (map (\<lambda>ab. (fst ab - snd ab)\<^sup>2) (zip ypred ytest))
                      / real (length ytest)))),
      ParameterGrid = (\<lambda>d. d),
      KFold_split = (\<lambda>k xs ys. Inr [([1], [0]), ([0], [1])]),
      data_fit_transform = (\<lambda>xs. Inr xs),
      prop_fit_transform = (\<lambda>ys. Inr (ys, ([], []))),
      prop_inverse_transform = (\<lambda>scaler ys. Inr ys)\<rparr>"

definition toy_modelability :: "bool \<Rightarrow> modelability" where
  "toy_modelability keep =
     \<lparr>emb_inferrer = scenario_inferrer,
      smiles_dataset = [''CCO'', ''CCN''],
      fingerprint_dataset = [[0], [0]],
      smiles_properties = [(''logp'', [0, 2])],
      dataset_max_seq_len = Some 4,
      n_splits = 2, return_predictions = keep, normalize_inputs = keep\<rparr>"

definition fresh_estimator :: "(real, real \<times> real) estimator" where
  "fresh_estimator = \<lparr>est_params = 0, est_fitted = None\<rparr>"

section \<open>Sampling metrics: per-molecule counts and their aggregate\<close>

lemma sample_many_loop_snoc:
  "sample_many_loop self n r (xs @ [x]) acc st =
     (case sample_many_loop self n r xs acc st of
        Inl e \<Rightarrow> Inl e
      | Inr (cs, st1) \<Rightarrow>
          (case sample self st1 x n r of
             Inl e \<Rightarrow> Inl e
           | Inr (c, st2) \<Rightarrow> Inr (cs @ [c], st2)))"
  by (induction xs arbitrary: acc st) (auto split: sum.splits)

lemma sample_many_loop_length:
  "sample_many_loop self n r xs acc st = Inr (cs, st') \<Longrightarrow> length cs = length acc + length xs"
  by (induction xs arbitrary: acc st) (auto split: sum.splits)

lemma sample_many_loop_take:
  "sample_many_loop self n r xs [] st = Inr (cs, st') \<Longrightarrow> i < length xs \<Longrightarrow>
     \<exists>sti sti'. sample_many_loop self n r (take i xs) [] st = Inr (take i cs, sti)
        \<and> sample self sti (xs ! i) n r = Inr (cs ! i, sti')"
proof (induction xs arbitrary: cs st' rule: rev_induct)
  case Nil
  then show ?case by simp
next
  case (snoc y ys)
  from snoc.prems(1) obtain cs0 st1 c where
    l: "sample_many_loop self n r ys [] st = Inr (cs0, st1)"
    and s: "sample self st1 y n r = Inr (c, st')" and cs: "cs = cs0 @ [c]"
    by (auto simp: sample_many_loop_snoc split: sum.splits)
  have len: "length cs0 = length ys" using sample_many_loop_length[OF l] by simp
  show ?case
  proof (cases "i < length ys")
    case True
    from snoc.IH[OF l True] show ?thesis using True len cs by (simp add: nth_append)
  next
    case False
    with snoc.prems(2) have "i = length ys" by simp
    then show ?thesis using l s cs len by (simp add: nth_append)
  qed
qed

lemma find_similars_total:
  assumes "\<And>smiles. \<exists>res. find_similars_smiles (metric_inferrer self) smiles n r u s = Inr res"
  shows "\<exists>gs st'. BaseSampleMetric_find_similars_smiles self st smiles n r u s = Inr (gs, st')"
proof -
  from assms obtain res where "find_similars_smiles (metric_inferrer self) smiles n r u s = Inr res"
    by blast
  then show ?thesis
    by (simp add: BaseSampleMetric_find_similars_smiles_def Let_def)
qed

lemma sample_total:
  assumes "\<And>smiles. \<exists>res. find_similars_smiles (metric_inferrer self) smiles n r False False = Inr res"
  shows "\<exists>c st'. sample self st smiles n r = Inr (c, st')"
proof -
  from find_similars_total[OF assms] obtain gs st' where
    "BaseSampleMetric_find_similars_smiles self st smiles n r False False = Inr (gs, st')"
    by blast
  then show ?thesis
    by (cases "kind self")
       (simp_all add: sample_def Validity_sample_def Unique_sample_def Novelty_sample_def)
qed

lemma sample_many_loop_total:
  assumes "\<And>smiles. \<exists>res. find_similars_smiles (metric_inferrer self) smiles n r False False = Inr res"
  shows "\<exists>cs st'. sample_many_loop self n r xs acc st = Inr (cs, st')"
proof (induction xs arbitrary: acc st)
  case Nil
  then show ?case by simp
next
  case (Cons x xs)
  from sample_total[OF assms] obtain c st1 where "sample self st x n r = Inr (c, st1)" by blast
  then show ?case using Cons.IH by simp
qed

lemma foldl_count_nonneg:
  "(0::int) \<le> a \<Longrightarrow> 0 \<le> foldl (\<lambda>ctr x. if P x then ctr + 1 else ctr) a xs"
  by (induction xs arbitrary: a) auto

lemma sum_of_bool_filter:
  "sum_list (map (\<lambda>x. of_bool (P x)) xs) = int (length (filter P xs))"
  by (induction xs) auto

lemma sample_nonneg: "sample self st smiles n r = Inr (c, st') \<Longrightarrow> 0 \<le> c"
  by (cases "kind self")
     (auto simp: sample_def Validity_sample_def Unique_sample_def Novelty_sample_def
        foldl_count_nonneg sum_of_bool_filter split: sum.splits)

lemma sample_many_loop_nonneg:
  "sample_many_loop self n r xs acc st = Inr (cs, st') \<Longrightarrow> 0 \<le> sum_list acc \<Longrightarrow> 0 \<le> sum_list cs"
proof (induction xs arbitrary: acc st)
  case Nil
  then show ?case by simp
next
  case (Cons x xs)
  from Cons.prems(1) obtain c st1 where s: "sample self st x n r = Inr (c, st1)"
    and l: "sample_many_loop self n r xs (acc @ [c]) st1 = Inr (cs, st')"
    by (auto split: sum.splits)
  from sample_nonneg[OF s] Cons.prems(2) have "0 \<le> sum_list (acc @ [c])" by simp
  from Cons.IH[OF l this] show ?case .
qed

text \<open>The scenario, evaluated: the first request for \<open>CCO\<close> misses the empty cache, and the
  counts of a Validity run over the five molecules.\<close>

lemma scenario_find:
  "BaseSampleMetric_find_similars_smiles (scenario_metric k) empty_state ''CCO'' 3 (1 / 10)
       False False
     = Inr ([''CCO'', ''CCC'', ''invalid_string'', ''CCO''], after_first_sample)"
  by (simp add: BaseSampleMetric_find_similars_smiles_def scenario_metric_def
        scenario_inferrer_def empty_state_def fetch_sampling_data_def Let_def
        after_first_sample_def)

lemma scenario_counts:
  "returned (sample_many (scenario_metric Validity) empty_state
               (dataset_smiles (scenario_metric Validity)) n (1 / 10)) = Some [2, 0, 0, 0, 0]"
  by (simp add: returned_def sample_many_def sample_def Validity_sample_def
        BaseSampleMetric_find_similars_smiles_def scenario_metric_def scenario_inferrer_def
        empty_state_def fetch_sampling_data_def insert_sampling_data_def Let_def)

lemma scenario_client_total:
  "\<exists>res. find_similars_smiles (metric_inferrer (scenario_metric k)) smiles n r False False = Inr res"
  by (simp add: scenario_metric_def scenario_inferrer_def)

text \<open>What \<open>Novelty.sample\<close> computes on a non-empty sample list: the identity marker at the
  head is tested against the training set like every candidate after it.\<close>

lemma Novelty_sample_counts_head:
  assumes "BaseSampleMetric_find_similars_smiles self st smiles n r False False
             = Inr (g # gs, st')"
  shows "Novelty_sample self st smiles n r
           = Inr (of_bool (is_known_smiles self g)
                  + int (length (filter (is_known_smiles self) gs)), st')"
  using assms
  by (simp add: Novelty_sample_def smiles_in_train_def sum_of_bool_filter[of "is_known_smiles self"])

text \<open>
  C1. Novelty's per-molecule count is claimed to leave out the first element of the sample
  list. For \<open>CCO\<close> in the scenario the sample list is \<open>CCO, CCC, invalid_string, CCO\<close> and
  the training set holds \<open>CCO\<close>: one candidate after the first element is in the training
  set, and \<open>Novelty.sample\<close> returns 2, because it counts the first element as well.
\<close>

theorem Novelty_sample_counts_identity_marker:
  "returned (BaseSampleMetric_find_similars_smiles (scenario_metric Novelty) empty_state
               ''CCO'' 3 (1 / 10) False False)
     = Some [''CCO'', ''CCC'', ''invalid_string'', ''CCO'']
   \<and> length (filter (is_known_smiles (scenario_metric Novelty))
               (drop 1 [''CCO'', ''CCC'', ''invalid_string'', ''CCO''])) = 1
   \<and> returned (Novelty_sample (scenario_metric Novelty) empty_state ''CCO'' 3 (1 / 10)) = Some 2"
proof -
  have "returned (Novelty_sample (scenario_metric Novelty) empty_state ''CCO'' 3 (1 / 10)) = Some 2"
    unfolding Novelty_sample_def scenario_find
    by (simp add: returned_def smiles_in_train_def scenario_metric_def)
  moreover have "length (filter (is_known_smiles (scenario_metric Novelty))
               (drop 1 [''CCO'', ''CCC'', ''invalid_string'', ''CCO''])) = 1"
    by (simp add: scenario_metric_def)
  ultimately show ?thesis by (simp add: scenario_find returned_def)
qed

text \<open>
  C2 (as amended). With \<open>num_samples = 0\<close> the metric code raises nothing of its own:
  whenever sampling every molecule of the dataset succeeds, \<open>calculate\<close> returns, and the
  zero-denominator division has been carried out by numpy: the reported value is \<open>nan\<close>
  when the counts sum to zero and \<open>inf\<close> otherwise.
\<close>

theorem calculate_zero_samples:
  assumes "sample_many self st (dataset_smiles self) 0 radius = Inr (counts, st')"
  shows "\<exists>series. calculate self st radius 0 = Inr (series, st')
           \<and> series_value series = (if sum_list counts = 0 then NaN else PosInf)"
proof -
  have "0 \<le> sum_list counts"
    using assms sample_many_loop_nonneg[of self 0 radius "dataset_smiles self" "[]" st counts st']
    by (simp add: sample_many_def)
  then show ?thesis
    using assms by (auto simp: calculate_def Let_def BaseSampleMetric_calculate_metric_def)
qed

text \<open>The scenario with \<open>num_samples = 0\<close>: the counts are 2, 0, 0, 0, 0 and the value is
  \<open>inf\<close>.\<close>

theorem calculate_zero_samples_witness:
  "returned (sample_many (scenario_metric Validity) empty_state
               (dataset_smiles (scenario_metric Validity)) 0 (1 / 10)) = Some [2, 0, 0, 0, 0]
   \<and> map_option series_value
        (returned (calculate (scenario_metric Validity) empty_state (1 / 10) 0)) = Some PosInf"
proof -
  from scenario_counts[of 0] obtain st' where
    sm: "sample_many (scenario_metric Validity) empty_state
           (dataset_smiles (scenario_metric Validity)) 0 (1 / 10) = Inr ([2, 0, 0, 0, 0], st')"
    by (auto simp: returned_def split: sum.splits)
  from calculate_zero_samples[OF sm] obtain series where
    "calculate (scenario_metric Validity) empty_state (1 / 10) 0 = Inr (series, st')"
    "series_value series = PosInf"
    by auto
  then show ?thesis using scenario_counts[of 0] by (simp add: returned_def)
qed

text \<open>The claim as first stated fails: on the five-molecule dataset of the scenario,
  \<open>calculate\<close> with \<open>num_samples = 0\<close> returns a series instead of raising.\<close>

theorem calculate_zero_samples_returns:
  "dataset_smiles (scenario_metric Validity) \<noteq> []
   \<and> returned (calculate (scenario_metric Validity) empty_state (1 / 10) 0)
       = Some \<lparr>series_name = ''validity'', series_value = PosInf,
                series_radius = 1 / 10, series_num_samples = 0\<rparr>"
  by (simp add: returned_def calculate_def sample_many_def sample_def Validity_sample_def
        BaseSampleMetric_find_similars_smiles_def scenario_metric_def scenario_inferrer_def
        empty_state_def fetch_sampling_data_def insert_sampling_data_def
        BaseSampleMetric_calculate_metric_def metric_name_def Let_def)

text \<open>
  C6 (as amended). When the sample list obtained for \<open>CCO\<close> is
  \<open>CCO, CCC, invalid_string, CCO\<close> with \<open>n = 3\<close>, \<open>Unique.sample\<close> returns 3: the three
  candidates after the first element are pairwise distinct.
\<close>

theorem Unique_sample_CCO:
  assumes "BaseSampleMetric_find_similars_smiles self st ''CCO'' 3 radius False False
             = Inr ([''CCO'', ''CCC'', ''invalid_string'', ''CCO''], st')"
  shows "Unique_sample self st ''CCO'' 3 radius = Inr (3, st')"
  using assms by (simp add: Unique_sample_def card_insert_if)

theorem Unique_sample_CCO_witness:
  "BaseSampleMetric_find_similars_smiles (scenario_metric Unique) empty_state ''CCO'' 3 (1 / 10)
       False False
     = Inr ([''CCO'', ''CCC'', ''invalid_string'', ''CCO''], after_first_sample)
   \<and> Unique_sample (scenario_metric Unique) empty_state ''CCO'' 3 (1 / 10)
     = Inr (3, after_first_sample)"
  using Unique_sample_CCO[OF scenario_find[of Unique]] scenario_find[of Unique] by simp

text \<open>The count claimed at first, 2, is not what \<open>Unique.sample\<close> returns there.\<close>

theorem Unique_sample_CCO_not_2:
  "returned (BaseSampleMetric_find_similars_smiles (scenario_metric Unique) empty_state
               ''CCO'' 3 (1 / 10) False False)
     = Some [''CCO'', ''CCC'', ''invalid_string'', ''CCO'']
   \<and> returned (Unique_sample (scenario_metric Unique) empty_state ''CCO'' 3 (1 / 10)) \<noteq> Some 2"
proof -
  have "returned (Unique_sample (scenario_metric Unique) empty_state ''CCO'' 3 (1 / 10)) = Some 3"
    unfolding Unique_sample_def scenario_find by (simp add: returned_def card_insert_if)
  then show ?thesis by (simp add: scenario_find returned_def)
qed

text \<open>
  C7. For a non-empty dataset and \<open>n > 0\<close>: whenever \<open>calculate\<close> returns, its value is the
  sum of the counts divided by (dataset size times \<open>n\<close>), where there is one count for each
  molecule of the dataset and the i-th count is what \<open>sample\<close> returned for the i-th
  molecule, called in the state that the molecules before it left; and \<open>calculate\<close> does
  return whenever the inference client does not raise.
\<close>

theorem calculate_value:
  assumes "dataset_smiles self \<noteq> []" and "0 < num_samples"
  shows "(\<forall>series st'. calculate self st radius num_samples = Inr (series, st') \<longrightarrow>
           (\<exists>counts. sample_many self st (dataset_smiles self) num_samples radius = Inr (counts, st')
              \<and> length counts = length (dataset_smiles self)
              \<and> (\<forall>i < length counts. \<exists>sti sti'.
                    sample_many self st (take i (dataset_smiles self)) num_samples radius
                      = Inr (take i counts, sti)
                    \<and> sample self sti (dataset_smiles self ! i) num_samples radius
                      = Inr (counts ! i, sti'))
              \<and> series_value series =
                  Finite (real_of_int (sum_list counts)
                          / real_of_int (int (length (dataset_smiles self)) * num_samples))))
       \<and> ((\<forall>smiles. \<exists>res. find_similars_smiles (metric_inferrer self) smiles num_samples radius
                            False False = Inr res)
            \<longrightarrow> (\<exists>series st'. calculate self st radius num_samples = Inr (series, st')))"
proof (intro conjI allI impI)
  fix series st'
  assume c: "calculate self st radius num_samples = Inr (series, st')"
  then obtain counts where
    sm: "sample_many self st (dataset_smiles self) num_samples radius = Inr (counts, st')"
    and v: "series_value series = BaseSampleMetric_calculate_metric counts num_samples"
    by (auto simp: calculate_def Let_def split: sum.splits)
  have len: "length counts = length (dataset_smiles self)"
    using sm sample_many_loop_length[of self num_samples radius "dataset_smiles self" "[]"
                st counts st']
    by (simp add: sample_many_def)
  have nz: "real_of_int (int (length counts) * num_samples) \<noteq> 0"
    using assms len by simp
  have val: "series_value series =
        Finite (real_of_int (sum_list counts)
                / real_of_int (int (length (dataset_smiles self)) * num_samples))"
    using nz by (simp add: v BaseSampleMetric_calculate_metric_def Let_def len)
  have each: "\<forall>i < length counts. \<exists>sti sti'.
       sample_many self st (take i (dataset_smiles self)) num_samples radius
         = Inr (take i counts, sti)
       \<and> sample self sti (dataset_smiles self ! i) num_samples radius = Inr (counts ! i, sti')"
    using sm sample_many_loop_take[of self num_samples radius "dataset_smiles self" st counts st']
      len
    by (simp add: sample_many_def)
  show "\<exists>counts. sample_many self st (dataset_smiles self) num_samples radius = Inr (counts, st')
              \<and> length counts = length (dataset_smiles self)
              \<and> (\<forall>i < length counts. \<exists>sti sti'.
                    sample_many self st (take i (dataset_smiles self)) num_samples radius
                      = Inr (take i counts, sti)
                    \<and> sample self sti (dataset_smiles self ! i) num_samples radius
                      = Inr (counts ! i, sti'))
              \<and> series_value series =
                  Finite (real_of_int (sum_list counts)
                          / real_of_int (int (length (dataset_smiles self)) * num_samples))"
    using sm len each val by blast
next
  assume tot: "\<forall>smiles. \<exists>res. find_similars_smiles (metric_inferrer self) smiles num_samples
                            radius False False = Inr res"
  then have "\<exists>cs st'. sample_many_loop self num_samples radius (dataset_smiles self) [] st
                        = Inr (cs, st')"
    by (intro sample_many_loop_total) blast
  then show "\<exists>series st'. calculate self st radius num_samples = Inr (series, st')"
    by (auto simp: calculate_def sample_many_def Let_def)
qed

text \<open>The scenario with \<open>n = 3\<close>: five molecules, counts 2, 0, 0, 0, 0, value 2 / 15.\<close>

theorem calculate_value_witness:
  "dataset_smiles (scenario_metric Validity) \<noteq> [] \<and> (0::int) < 3
   \<and> returned (sample_many (scenario_metric Validity) empty_state
                 (dataset_smiles (scenario_metric Validity)) 3 (1 / 10)) = Some [2, 0, 0, 0, 0]
   \<and> map_option series_value
        (returned (calculate (scenario_metric Validity) empty_state (1 / 10) 3))
       = Some (Finite (2 / (5 * 3)))"
proof -
  have ne: "dataset_smiles (scenario_metric Validity) \<noteq> []"
    by (simp add: scenario_metric_def)
  have len: "length (dataset_smiles (scenario_metric Validity)) = 5"
    by (simp add: scenario_metric_def)
  have pos: "(0::int) < 3" by simp
  note cv = calculate_value[OF ne pos, of empty_state "1 / 10"]
  from cv scenario_client_total[of Validity] obtain series st' where
    c: "calculate (scenario_metric Validity) empty_state (1 / 10) 3 = Inr (series, st')"
    by blast
  with cv obtain counts where
    sm: "sample_many (scenario_metric Validity) empty_state
           (dataset_smiles (scenario_metric Validity)) 3 (1 / 10) = Inr (counts, st')"
    and v: "series_value series =
              Finite (real_of_int (sum_list counts)
                      / real_of_int (int (length (dataset_smiles (scenario_metric Validity))) * 3))"
    by blast
  from sm scenario_counts[of 3] have "counts = [2, 0, 0, 0, 0]"
    by (simp add: returned_def)
  with v len have "series_value series = Finite (2 / (5 * 3))" by simp
  with c ne pos scenario_counts[of 3] show ?thesis by (simp add: returned_def)
qed

section \<open>The cache in front of the inference client\<close>

subsection \<open>One lookup\<close>

lemma find_similars_hit:
  assumes "fetch_sampling_data st (class_name (metric_inferrer self)) smiles n r u s
             = Some (g # gs)"
  shows "BaseSampleMetric_find_similars_smiles self st smiles n r u s = Inr (g # gs, st)"
  using assms by (simp add: BaseSampleMetric_find_similars_smiles_def)

lemma find_similars_cases:
  assumes "BaseSampleMetric_find_similars_smiles self st smiles n r u s = Inr (gs, st')"
  shows "(st' = st \<and> gs \<noteq> []
          \<and> fetch_sampling_data st (class_name (metric_inferrer self)) smiles n r u s = Some gs)
       \<or> ((fetch_sampling_data st (class_name (metric_inferrer self)) smiles n r u s = None
           \<or> fetch_sampling_data st (class_name (metric_inferrer self)) smiles n r u s = Some [])
          \<and> (\<exists>res. find_similars_smiles (metric_inferrer self) smiles n r u s = Inr res
                \<and> gs = SMILES res
                \<and> st' = insert_sampling_data
                          (st\<lparr>sampler_calls := sampler_calls st @ [(smiles, n, r, u, s)]\<rparr>)
                          (class_name (metric_inferrer self)) smiles n r u s
                          (SMILES res) (embeddings res) (embeddings_dim res)))"
  using assms
  by (auto simp: BaseSampleMetric_find_similars_smiles_def Let_def split: if_splits sum.splits)

lemma find_embedding_cases:
  assumes "BaseEmbeddingMetric_find_embedding self st smiles max_seq_len = Inr ((emb, d), st')"
  shows "(st' = st \<and> length d \<noteq> 1 \<and> fetch_embedding_data st smiles = Some (emb, d))
       \<or> ((fetch_embedding_data st smiles = None
           \<or> (\<exists>emb0 d0. fetch_embedding_data st smiles = Some (emb0, d0) \<and> length d0 = 1))
          \<and> smiles_to_embedding (emb_inferrer self) smiles max_seq_len
               = Inr \<lparr>embedding = emb, dim = d\<rparr>
          \<and> st' = insert_embedding_data
                    (st\<lparr>embedder_calls := embedder_calls st @ [(smiles, max_seq_len)]\<rparr>)
                    smiles emb d)"
  using assms
  by (auto simp: BaseEmbeddingMetric_find_embedding_def Let_def split: if_splits sum.splits)

text \<open>What the cache's contract gives, whichever way a present fingerprint is treated:
  an absent fingerprint is stored, no other fingerprint is touched, and neither the other
  table nor the call logs change.\<close>

lemma fetch_log_sampling:
  "fetch_sampling_data (st\<lparr>sampler_calls := cs\<rparr>) name smiles n r u s
     = fetch_sampling_data st name smiles n r u s"
  by (simp add: fetch_sampling_data_def)

lemma fetch_log_embedding:
  "fetch_embedding_data (st\<lparr>embedder_calls := cs\<rparr>) smiles = fetch_embedding_data st smiles"
  by (simp add: fetch_embedding_data_def)

lemma fetch_insert_sampling_absent:
  "fetch_sampling_data st name smiles n r u s = None \<Longrightarrow>
     fetch_sampling_data (insert_sampling_data st name smiles n r u s gs es ds)
       name smiles n r u s = Some gs"
  by (simp add: fetch_sampling_data_def insert_sampling_data_def)

lemma fetch_insert_sampling_other:
  "(name', smiles', n', r', u', s') \<noteq> (name, smiles, n, r, u, s) \<Longrightarrow>
     fetch_sampling_data (insert_sampling_data st name smiles n r u s gs es ds)
       name' smiles' n' r' u' s'
     = fetch_sampling_data st name' smiles' n' r' u' s'"
  by (auto simp: fetch_sampling_data_def insert_sampling_data_def)

lemma insert_sampling_frame:
  "sampler_calls (insert_sampling_data st name smiles n r u s gs es ds) = sampler_calls st"
  "embedder_calls (insert_sampling_data st name smiles n r u s gs es ds) = embedder_calls st"
  "embedding_table (insert_sampling_data st name smiles n r u s gs es ds) = embedding_table st"
  by (simp_all add: insert_sampling_data_def)

lemma fetch_insert_embedding_absent:
  "fetch_embedding_data st smiles = None \<Longrightarrow>
     fetch_embedding_data (insert_embedding_data st smiles emb d) smiles = Some (emb, d)"
  by (simp add: fetch_embedding_data_def insert_embedding_data_def)

lemma fetch_insert_embedding_other:
  "smiles' \<noteq> smiles \<Longrightarrow>
     fetch_embedding_data (insert_embedding_data st smiles emb d) smiles'
     = fetch_embedding_data st smiles'"
  by (simp add: fetch_embedding_data_def insert_embedding_data_def)

lemma insert_embedding_frame:
  "embedder_calls (insert_embedding_data st smiles emb d) = embedder_calls st"
  "sampler_calls (insert_embedding_data st smiles emb d) = sampler_calls st"
  "sampling_table (insert_embedding_data st smiles emb d) = sampling_table st"
  by (simp_all add: insert_embedding_data_def)

lemma find_similars_lookup:
  assumes "BaseSampleMetric_find_similars_smiles self st smiles n r u s = Inr (gs, st')"
  shows "(sampler_calls st' = sampler_calls st \<longleftrightarrow>
            (\<exists>g gs'. fetch_sampling_data st (class_name (metric_inferrer self)) smiles n r u s
                       = Some (g # gs')))
       \<and> (sampler_calls st' = sampler_calls st \<or>
            sampler_calls st' = sampler_calls st @ [(smiles, n, r, u, s)])
       \<and> (fetch_sampling_data st (class_name (metric_inferrer self)) smiles n r u s = None \<longrightarrow>
            fetch_sampling_data st' (class_name (metric_inferrer self)) smiles n r u s = Some gs)"
  using find_similars_cases[OF assms]
  by (cases gs)
     (auto simp: insert_sampling_frame fetch_insert_sampling_absent fetch_log_sampling)

lemma find_embedding_lookup:
  assumes "BaseEmbeddingMetric_find_embedding self st smiles max_seq_len = Inr ((emb, d), st')"
  shows "(embedder_calls st' = embedder_calls st \<longleftrightarrow>
            (\<exists>emb0 d0. fetch_embedding_data st smiles = Some (emb0, d0) \<and> length d0 \<noteq> 1))
       \<and> (embedder_calls st' = embedder_calls st \<or>
            embedder_calls st' = embedder_calls st @ [(smiles, max_seq_len)])
       \<and> (fetch_embedding_data st smiles = None \<longrightarrow>
            fetch_embedding_data st' smiles = Some (emb, d))"
  using find_embedding_cases[OF assms]
  by (auto simp: insert_embedding_frame fetch_insert_embedding_absent fetch_log_embedding)

subsection \<open>Any sequence of lookups\<close>

text \<open>
  For one sampling fingerprint: as long as the client has not been called for it, its
  entry is the one the run started with; once the client has been called for it, which
  happens only if it was absent, it holds a non-empty list. One lookup, of this
  fingerprint or another, on either path, keeps that.
\<close>

lemma lookup_keeps_sampling:
  assumes client: "\<forall>res. find_similars_smiles (metric_inferrer sself) smiles n r u s = Inr res
                     \<longrightarrow> SMILES res \<noteq> []"
    and start: "fetch_sampling_data st0 (class_name (metric_inferrer sself)) smiles n r u s
                  \<noteq> Some []"
    and step: "lookup sself eself st q = Inr st'"
    and log: "sampler_calls st = sampler_calls st0 @ new"
    and inv: "(count_list new (smiles, n, r, u, s) = 0
                \<and> fetch_sampling_data st (class_name (metric_inferrer sself)) smiles n r u s
                  = fetch_sampling_data st0 (class_name (metric_inferrer sself)) smiles n r u s)
            \<or> (count_list new (smiles, n, r, u, s) = 1
                \<and> fetch_sampling_data st0 (class_name (metric_inferrer sself)) smiles n r u s
                  = None
                \<and> (\<exists>g gs. fetch_sampling_data st (class_name (metric_inferrer sself))
                             smiles n r u s = Some (g # gs)))"
  shows "\<exists>new'. sampler_calls st' = sampler_calls st0 @ new'
           \<and> ((count_list new' (smiles, n, r, u, s) = 0
                \<and> fetch_sampling_data st' (class_name (metric_inferrer sself)) smiles n r u s
                  = fetch_sampling_data st0 (class_name (metric_inferrer sself)) smiles n r u s)
            \<or> (count_list new' (smiles, n, r, u, s) = 1
                \<and> fetch_sampling_data st0 (class_name (metric_inferrer sself)) smiles n r u s
                  = None
                \<and> (\<exists>g gs. fetch_sampling_data st' (class_name (metric_inferrer sself))
                             smiles n r u s = Some (g # gs))))"
proof (cases q)
  case (EmbeddingRequest smiles' max_seq_len)
  with step obtain res where
    f: "BaseEmbeddingMetric_find_embedding eself st smiles' max_seq_len = Inr (res, st')"
    by (auto split: sum.splits)
  obtain emb d where "res = (emb, d)" by (cases res)
  with find_embedding_cases[of eself st smiles' max_seq_len emb d st'] f
  have "sampler_calls st' = sampler_calls st \<and> sampling_table st' = sampling_table st"
    by (auto simp: insert_embedding_frame)
  then show ?thesis using log inv by (auto simp: fetch_sampling_data_def)
next
  case (SamplingRequest smiles' n' r' u' s')
  let ?name = "class_name (metric_inferrer sself)"
  from step SamplingRequest obtain gs' where
    f: "BaseSampleMetric_find_similars_smiles sself st smiles' n' r' u' s' = Inr (gs', st')"
    by (auto split: sum.splits)
  from find_similars_cases[OF f] show ?thesis
  proof
    assume "st' = st \<and> gs' \<noteq> []
      \<and> fetch_sampling_data st ?name smiles' n' r' u' s' = Some gs'"
    then show ?thesis using log inv by auto
  next
    assume miss: "(fetch_sampling_data st ?name smiles' n' r' u' s' = None
           \<or> fetch_sampling_data st ?name smiles' n' r' u' s' = Some [])
          \<and> (\<exists>res. find_similars_smiles (metric_inferrer sself) smiles' n' r' u' s' = Inr res
                \<and> gs' = SMILES res
                \<and> st' = insert_sampling_data
                          (st\<lparr>sampler_calls := sampler_calls st @ [(smiles', n', r', u', s')]\<rparr>)
                          ?name smiles' n' r' u' s'
                          (SMILES res) (embeddings res) (embeddings_dim res))"
    then obtain res where
      res: "find_similars_smiles (metric_inferrer sself) smiles' n' r' u' s' = Inr res"
      and st': "st' = insert_sampling_data
                  (st\<lparr>sampler_calls := sampler_calls st @ [(smiles', n', r', u', s')]\<rparr>)
                  ?name smiles' n' r' u' s' (SMILES res) (embeddings res) (embeddings_dim res)"
      by blast
    have log': "sampler_calls st' = sampler_calls st0 @ (new @ [(smiles', n', r', u', s')])"
      using st' log by (simp add: insert_sampling_frame)
    show ?thesis
    proof (cases "(smiles', n', r', u', s') = (smiles, n, r, u, s)")
      case True
      from miss True have m: "fetch_sampling_data st ?name smiles n r u s = None
           \<or> fetch_sampling_data st ?name smiles n r u s = Some []"
        by simp
      with inv start have c0: "count_list new (smiles, n, r, u, s) = 0"
        and none: "fetch_sampling_data st ?name smiles n r u s = None"
        and none0: "fetch_sampling_data st0 ?name smiles n r u s = None"
        by auto
      from client res True obtain g gs where g: "SMILES res = g # gs"
        by (cases "SMILES res") auto
      have "fetch_sampling_data st' ?name smiles n r u s = Some (g # gs)"
        using st' True none g
        by (simp add: fetch_insert_sampling_absent fetch_log_sampling)
      with c0 none0 True log' show ?thesis by auto
    next
      case False
      then have ne: "(?name, smiles, n, r, u, s) \<noteq> (?name, smiles', n', r', u', s')"
        by auto
      have same: "fetch_sampling_data st' ?name smiles n r u s
                  = fetch_sampling_data st ?name smiles n r u s"
        unfolding st' using fetch_insert_sampling_other[OF ne]
        by (simp add: fetch_log_sampling)
      have "count_list (new @ [(smiles', n', r', u', s')]) (smiles, n, r, u, s)
              = count_list new (smiles, n, r, u, s)"
        using False by auto
      with same inv log' show ?thesis by metis
    qed
  qed
qed

lemma lookups_keep_sampling:
  assumes client: "\<forall>res. find_similars_smiles (metric_inferrer sself) smiles n r u s = Inr res
                     \<longrightarrow> SMILES res \<noteq> []"
    and start: "fetch_sampling_data st0 (class_name (metric_inferrer sself)) smiles n r u s
                  \<noteq> Some []"
    and run: "lookups sself eself st qs = Inr st'"
    and log: "sampler_calls st = sampler_calls st0 @ new"
    and inv: "(count_list new (smiles, n, r, u, s) = 0
                \<and> fetch_sampling_data st (class_name (metric_inferrer sself)) smiles n r u s
                  = fetch_sampling_data st0 (class_name (metric_inferrer sself)) smiles n r u s)
            \<or> (count_list new (smiles, n, r, u, s) = 1
                \<and> fetch_sampling_data st0 (class_name (metric_inferrer sself)) smiles n r u s
                  = None
                \<and> (\<exists>g gs. fetch_sampling_data st (class_name (metric_inferrer sself))
                             smiles n r u s = Some (g # gs)))"
  shows "\<exists>new'. sampler_calls st' = sampler_calls st0 @ new'
           \<and> count_list new' (smiles, n, r, u, s) \<le> 1
           \<and> (count_list new' (smiles, n, r, u, s) = 0
                \<or> fetch_sampling_data st0 (class_name (metric_inferrer sself)) smiles n r u s
                   = None)"
  using run log inv
proof (induction qs arbitrary: st new)
  case Nil
  then show ?case by auto
next
  case (Cons q qs)
  from Cons.prems(1) obtain st1 where
    s: "lookup sself eself st q = Inr st1" and r: "lookups sself eself st1 qs = Inr st'"
    by (auto split: sum.splits)
  from lookup_keeps_sampling[OF client start s Cons.prems(2) Cons.prems(3)]
  obtain new1 where "sampler_calls st1 = sampler_calls st0 @ new1"
    and "(count_list new1 (smiles, n, r, u, s) = 0
                \<and> fetch_sampling_data st1 (class_name (metric_inferrer sself)) smiles n r u s
                  = fetch_sampling_data st0 (class_name (metric_inferrer sself)) smiles n r u s)
            \<or> (count_list new1 (smiles, n, r, u, s) = 1
                \<and> fetch_sampling_data st0 (class_name (metric_inferrer sself)) smiles n r u s
                  = None
                \<and> (\<exists>g gs. fetch_sampling_data st1 (class_name (metric_inferrer sself))
                             smiles n r u s = Some (g # gs)))"
    by blast
  from Cons.IH[OF r this] show ?case .
qed

text \<open>The same for one embedding fingerprint, which is the molecule string alone.\<close>

lemma lookup_keeps_embedding:
  assumes client: "\<forall>m res. smiles_to_embedding (emb_inferrer eself) smiles m = Inr res
                     \<longrightarrow> length (dim res) \<noteq> 1"
    and start: "\<forall>emb d. fetch_embedding_data st0 smiles = Some (emb, d) \<longrightarrow> length d \<noteq> 1"
    and step: "lookup sself eself st q = Inr st'"
    and log: "embedder_calls st = embedder_calls st0 @ new"
    and inv: "(count_list (map fst new) smiles = 0
                \<and> fetch_embedding_data st smiles = fetch_embedding_data st0 smiles)
            \<or> (count_list (map fst new) smiles = 1
                \<and> fetch_embedding_data st0 smiles = None
                \<and> (\<exists>emb d. fetch_embedding_data st smiles = Some (emb, d) \<and> length d \<noteq> 1))"
  shows "\<exists>new'. embedder_calls st' = embedder_calls st0 @ new'
           \<and> ((count_list (map fst new') smiles = 0
                \<and> fetch_embedding_data st' smiles = fetch_embedding_data st0 smiles)
            \<or> (count_list (map fst new') smiles = 1
                \<and> fetch_embedding_data st0 smiles = None
                \<and> (\<exists>emb d. fetch_embedding_data st' smiles = Some (emb, d) \<and> length d \<noteq> 1)))"
proof (cases q)
  case (SamplingRequest smiles' n' r' u' s')
  with step obtain gs' where
    f: "BaseSampleMetric_find_similars_smiles sself st smiles' n' r' u' s' = Inr (gs', st')"
    by (auto split: sum.splits)
  from find_similars_cases[OF f]
  have "embedder_calls st' = embedder_calls st \<and> embedding_table st' = embedding_table st"
    by (auto simp: insert_sampling_frame)
  then show ?thesis using log inv by (auto simp: fetch_embedding_data_def)
next
  case (EmbeddingRequest smiles' m)
  with step obtain res where
    f0: "BaseEmbeddingMetric_find_embedding eself st smiles' m = Inr (res, st')"
    by (auto split: sum.splits)
  obtain emb d where res: "res = (emb, d)" by (cases res)
  with f0 have f: "BaseEmbeddingMetric_find_embedding eself st smiles' m = Inr ((emb, d), st')"
    by simp
  from find_embedding_cases[OF f] show ?thesis
  proof
    assume "st' = st \<and> length d \<noteq> 1 \<and> fetch_embedding_data st smiles' = Some (emb, d)"
    then show ?thesis using log inv by auto
  next
    assume miss: "(fetch_embedding_data st smiles' = None
           \<or> (\<exists>emb0 d0. fetch_embedding_data st smiles' = Some (emb0, d0) \<and> length d0 = 1))
          \<and> smiles_to_embedding (emb_inferrer eself) smiles' m
               = Inr \<lparr>embedding = emb, dim = d\<rparr>
          \<and> st' = insert_embedding_data
                    (st\<lparr>embedder_calls := embedder_calls st @ [(smiles', m)]\<rparr>)
                    smiles' emb d"
    then have st': "st' = insert_embedding_data
                    (st\<lparr>embedder_calls := embedder_calls st @ [(smiles', m)]\<rparr>)
                    smiles' emb d"
      and cl: "smiles_to_embedding (emb_inferrer eself) smiles' m
               = Inr \<lparr>embedding = emb, dim = d\<rparr>"
      by blast+
    have log': "embedder_calls st' = embedder_calls st0 @ (new @ [(smiles', m)])"
      using st' log by (simp add: insert_embedding_frame)
    show ?thesis
    proof (cases "smiles' = smiles")
      case True
      from miss True have m: "fetch_embedding_data st smiles = None
           \<or> (\<exists>emb0 d0. fetch_embedding_data st smiles = Some (emb0, d0) \<and> length d0 = 1)"
        by simp
      have usable: "\<not> (\<exists>emb0 d0. fetch_embedding_data st smiles = Some (emb0, d0)
                                 \<and> length d0 = 1)"
      proof (cases "count_list (map fst new) smiles = 0")
        case True
        with inv have "fetch_embedding_data st smiles = fetch_embedding_data st0 smiles"
          by auto
        with start show ?thesis by metis
      next
        case False
        with inv show ?thesis by auto
      qed
      with m have none: "fetch_embedding_data st smiles = None" by blast
      with inv have c0: "count_list (map fst new) smiles = 0"
        and none0: "fetch_embedding_data st0 smiles = None"
        by auto
      from client cl True have d: "length d \<noteq> 1"
        by (metis embedding_result.select_convs(2))
      have "fetch_embedding_data st' smiles = Some (emb, d)"
        using st' True none
        by (simp add: fetch_insert_embedding_absent fetch_log_embedding)
      with c0 none0 True log' d show ?thesis by auto
    next
      case False
      have same: "fetch_embedding_data st' smiles = fetch_embedding_data st smiles"
        unfolding st' using False
        by (simp add: fetch_insert_embedding_other fetch_log_embedding)
      have "count_list (map fst (new @ [(smiles', m)])) smiles = count_list (map fst new) smiles"
        using False by auto
      with same inv log' show ?thesis by metis
    qed
  qed
qed

lemma lookups_keep_embedding:
  assumes client: "\<forall>m res. smiles_to_embedding (emb_inferrer eself) smiles m = Inr res
                     \<longrightarrow> length (dim res) \<noteq> 1"
    and start: "\<forall>emb d. fetch_embedding_data st0 smiles = Some (emb, d) \<longrightarrow> length d \<noteq> 1"
    and run: "lookups sself eself st qs = Inr st'"
    and log: "embedder_calls st = embedder_calls st0 @ new"
    and inv: "(count_list (map fst new) smiles = 0
                \<and> fetch_embedding_data st smiles = fetch_embedding_data st0 smiles)
            \<or> (count_list (map fst new) smiles = 1
                \<and> fetch_embedding_data st0 smiles = None
                \<and> (\<exists>emb d. fetch_embedding_data st smiles = Some (emb, d) \<and> length d \<noteq> 1))"
  shows "\<exists>new'. embedder_calls st' = embedder_calls st0 @ new'
           \<and> count_list (map fst new') smiles \<le> 1
           \<and> (count_list (map fst new') smiles = 0 \<or> fetch_embedding_data st0 smiles = None)"
  using run log inv
proof (induction qs arbitrary: st new)
  case Nil
  then show ?case by auto
next
  case (Cons q qs)
  from Cons.prems(1) obtain st1 where
    s: "lookup sself eself st q = Inr st1" and r: "lookups sself eself st1 qs = Inr st'"
    by (auto split: sum.splits)
  from lookup_keeps_embedding[OF client start s Cons.prems(2) Cons.prems(3)]
  obtain new1 where "embedder_calls st1 = embedder_calls st0 @ new1"
    and "(count_list (map fst new1) smiles = 0
                \<and> fetch_embedding_data st1 smiles = fetch_embedding_data st0 smiles)
            \<or> (count_list (map fst new1) smiles = 1
                \<and> fetch_embedding_data st0 smiles = None
                \<and> (\<exists>emb d. fetch_embedding_data st1 smiles = Some (emb, d) \<and> length d \<noteq> 1))"
    by blast
  from Cons.IH[OF r this] show ?case .
qed

text \<open>From the start of a run the client has not been called, so: in any sequence of
  lookups, at most one client call for a fingerprint whose stored and computed results
  are usable, and none when a result was stored at the start.\<close>

lemma lookups_sampling_at_most_once:
  assumes "lookups sself eself st0 qs = Inr stn"
    and "fetch_sampling_data st0 (class_name (metric_inferrer sself)) smiles n r u s \<noteq> Some []
         \<and> (\<forall>res. find_similars_smiles (metric_inferrer sself) smiles n r u s = Inr res
                    \<longrightarrow> SMILES res \<noteq> [])"
  shows "count_list (new_sampler_calls st0 stn) (smiles, n, r, u, s) \<le> 1
       \<and> (count_list (new_sampler_calls st0 stn) (smiles, n, r, u, s) = 0
           \<or> fetch_sampling_data st0 (class_name (metric_inferrer sself)) smiles n r u s = None)"
proof -
  from assms(2) have client: "\<forall>res. find_similars_smiles (metric_inferrer sself) smiles n r u s
                      = Inr res \<longrightarrow> SMILES res \<noteq> []"
    and start: "fetch_sampling_data st0 (class_name (metric_inferrer sself)) smiles n r u s
                  \<noteq> Some []"
    by blast+
  have log: "sampler_calls st0 = sampler_calls st0 @ []" by simp
  have inv: "(count_list [] (smiles, n, r, u, s) = 0
                \<and> fetch_sampling_data st0 (class_name (metric_inferrer sself)) smiles n r u s
                  = fetch_sampling_data st0 (class_name (metric_inferrer sself)) smiles n r u s)
            \<or> (count_list [] (smiles, n, r, u, s) = 1
                \<and> fetch_sampling_data st0 (class_name (metric_inferrer sself)) smiles n r u s
                  = None
                \<and> (\<exists>g gs. fetch_sampling_data st0 (class_name (metric_inferrer sself))
                             smiles n r u s = Some (g # gs)))"
    by simp
  from lookups_keep_sampling[OF client start assms(1) log inv]
  show ?thesis by (auto simp: new_sampler_calls_def)
qed

lemma lookups_embedding_at_most_once:
  assumes "lookups sself eself st0 qs = Inr stn"
    and "(\<forall>emb0 d0. fetch_embedding_data st0 smiles = Some (emb0, d0) \<longrightarrow> length d0 \<noteq> 1)
         \<and> (\<forall>m res. smiles_to_embedding (emb_inferrer eself) smiles m = Inr res
                      \<longrightarrow> length (dim res) \<noteq> 1)"
  shows "count_list (map fst (new_embedder_calls st0 stn)) smiles \<le> 1
       \<and> (count_list (map fst (new_embedder_calls st0 stn)) smiles = 0
           \<or> fetch_embedding_data st0 smiles = None)"
proof -
  from assms(2) have client: "\<forall>m res. smiles_to_embedding (emb_inferrer eself) smiles m = Inr res
                      \<longrightarrow> length (dim res) \<noteq> 1"
    and start: "\<forall>emb d. fetch_embedding_data st0 smiles = Some (emb, d) \<longrightarrow> length d \<noteq> 1"
    by blast+
  have log: "embedder_calls st0 = embedder_calls st0 @ []" by simp
  have inv: "(count_list (map fst []) smiles = 0
                \<and> fetch_embedding_data st0 smiles = fetch_embedding_data st0 smiles)
            \<or> (count_list (map fst []) smiles = 1
                \<and> fetch_embedding_data st0 smiles = None
                \<and> (\<exists>emb d. fetch_embedding_data st0 smiles = Some (emb, d) \<and> length d \<noteq> 1))"
    by simp
  from lookups_keep_embedding[OF client start assms(1) log inv]
  show ?thesis by (auto simp: new_embedder_calls_def)
qed

text \<open>The metric engines reach the cache and the client through these lookups only: a
  pass of \<open>sample_many\<close> or of \<open>encode_many\<close> over a dataset is such a sequence.\<close>

lemma sample_is_lookup:
  "sample self st smiles n r = Inr (c, st') \<Longrightarrow>
     lookup self eself st (SamplingRequest smiles n r False False) = Inr st'"
  by (cases "kind self")
     (auto simp: sample_def Validity_sample_def Unique_sample_def Novelty_sample_def
        split: sum.splits)

lemma sample_many_is_lookups:
  "sample_many_loop self n r xs acc st = Inr (cs, st') \<Longrightarrow>
     lookups self eself st (map (\<lambda>x. SamplingRequest x n r False False) xs) = Inr st'"
proof (induction xs arbitrary: acc st)
  case Nil
  then show ?case by simp
next
  case (Cons x xs)
  from Cons.prems obtain c st1 where s: "sample self st x n r = Inr (c, st1)"
    and l: "sample_many_loop self n r xs (acc @ [c]) st1 = Inr (cs, st')"
    by (auto split: sum.splits)
  from sample_is_lookup[OF s] Cons.IH[OF l] show ?case by simp
qed

lemma encode_is_lookup:
  "encode xpy eself st smiles z a m = Inr (v, st') \<Longrightarrow>
     lookup sself eself st (EmbeddingRequest smiles m) = Inr st'"
  by (auto simp: encode_def split: sum.splits if_splits)

lemma encode_many_is_lookups:
  "encode_many_loop xpy eself z a m xs embs st = Inr (res, st') \<Longrightarrow>
     lookups sself eself st (map (\<lambda>x. EmbeddingRequest x m) xs) = Inr st'"
proof (induction xs arbitrary: embs st)
  case Nil
  then show ?case by simp
next
  case (Cons x xs)
  from Cons.prems obtain v st1 where s: "encode xpy eself st x z a m = Inr (v, st1)"
    and l: "encode_many_loop xpy eself z a m xs (embs @ [v]) st1 = Inr (res, st')"
    by (auto split: sum.splits)
  from encode_is_lookup[OF s] Cons.IH[OF l] show ?case by simp
qed

text \<open>The scenario, evaluated: the stale entry for \<open>CCO\<close> is found and the lookup through
  \<open>_find_embedding\<close> calls the client; a first embedding lookup in the empty cache; and a
  run that asks for \<open>CCO\<close> and \<open>CCN\<close> twice each on the sampling path and for \<open>CCO\<close>
  twice on the embedding path.\<close>

lemma stale_fetch: "fetch_embedding_data stale_state ''CCO'' = Some ([5, 6, 7], [3])"
  by (simp add: stale_state_def fetch_embedding_data_def insert_embedding_data_def
        empty_state_def)

lemma stale_find:
  "BaseEmbeddingMetric_find_embedding scenario_embedding_metric stale_state ''CCO'' (Some 4)
     = Inr (([1, 2, 3, 4], [2, 2]), after_stale_lookup)"
  by (simp add: BaseEmbeddingMetric_find_embedding_def stale_fetch Let_def
        scenario_embedding_metric_def scenario_inferrer_def after_stale_lookup_def)

lemma scenario_find_embedding:
  "BaseEmbeddingMetric_find_embedding scenario_embedding_metric empty_state ''CCO'' (Some 4)
     = Inr (([1, 2, 3, 4], [2, 2]), after_first_embedding)"
  by (simp add: BaseEmbeddingMetric_find_embedding_def fetch_embedding_data_def Let_def
        scenario_embedding_metric_def scenario_inferrer_def after_first_embedding_def
        empty_state_def)

lemma scenario_run_calls:
  "map_sum id (\<lambda>st. (sampler_calls st, embedder_calls st))
     (lookups (scenario_metric Unique) scenario_embedding_metric empty_state scenario_requests)
     = Inr ([(''CCO'', 3, 1 / 10, False, False), (''CCN'', 3, 1 / 10, False, False)],
            [(''CCO'', Some 4)])"
  by (simp add: scenario_requests_def BaseSampleMetric_find_similars_smiles_def
        BaseEmbeddingMetric_find_embedding_def fetch_sampling_data_def insert_sampling_data_def
        fetch_embedding_data_def insert_embedding_data_def scenario_metric_def
        scenario_embedding_metric_def scenario_inferrer_def empty_state_def Let_def)

text \<open>
  C3 (as amended). The inference client is invoked only when the cache fetch returns no
  usable stored result: no stored result at all, an empty stored sample list, or a stored
  embedding whose dimensionality descriptor has length 1. A lookup makes at most one
  client call, and when nothing was stored the freshly computed result is in the cache
  right after it. So for every fingerprint whose stored result, if there is one, and
  whose computed results are usable, the client is called at most once in any sequence
  of lookups from one cache state, whatever other fingerprints are looked up in between,
  and not at all when a usable result was stored at the start: a fetch that returns a
  usable stored result never triggers a client call. This holds whether the cache treats
  an insert for a present fingerprint as an overwrite or as a no-op.
\<close>

theorem cache_guards_client:
  "(BaseSampleMetric_find_similars_smiles sself st smiles n r u s = Inr (gs, st') \<longrightarrow>
      (sampler_calls st' = sampler_calls st \<longleftrightarrow>
         (\<exists>g gs'. fetch_sampling_data st (class_name (metric_inferrer sself)) smiles n r u s
                    = Some (g # gs')))
      \<and> (sampler_calls st' = sampler_calls st \<or>
           sampler_calls st' = sampler_calls st @ [(smiles, n, r, u, s)])
      \<and> (fetch_sampling_data st (class_name (metric_inferrer sself)) smiles n r u s = None \<longrightarrow>
           fetch_sampling_data st' (class_name (metric_inferrer sself)) smiles n r u s = Some gs))
   \<and> (BaseEmbeddingMetric_find_embedding eself est esmiles max_seq_len = Inr ((emb, d), est') \<longrightarrow>
      (embedder_calls est' = embedder_calls est \<longleftrightarrow>
         (\<exists>emb0 d0. fetch_embedding_data est esmiles = Some (emb0, d0) \<and> length d0 \<noteq> 1))
      \<and> (embedder_calls est' = embedder_calls est \<or>
           embedder_calls est' = embedder_calls est @ [(esmiles, max_seq_len)])
      \<and> (fetch_embedding_data est esmiles = None \<longrightarrow>
           fetch_embedding_data est' esmiles = Some (emb, d)))
   \<and> (lookups sself eself st0 qs = Inr stn \<longrightarrow>
      (fetch_sampling_data st0 (class_name (metric_inferrer sself)) smiles n r u s \<noteq> Some []
         \<and> (\<forall>res. find_similars_smiles (metric_inferrer sself) smiles n r u s = Inr res
                    \<longrightarrow> SMILES res \<noteq> [])
       \<longrightarrow> count_list (new_sampler_calls st0 stn) (smiles, n, r, u, s) \<le> 1
           \<and> (count_list (new_sampler_calls st0 stn) (smiles, n, r, u, s) = 0
               \<or> fetch_sampling_data st0 (class_name (metric_inferrer sself)) smiles n r u s
                  = None))
      \<and> ((\<forall>emb0 d0. fetch_embedding_data st0 esmiles = Some (emb0, d0) \<longrightarrow> length d0 \<noteq> 1)
         \<and> (\<forall>m res. smiles_to_embedding (emb_inferrer eself) esmiles m = Inr res
                      \<longrightarrow> length (dim res) \<noteq> 1)
       \<longrightarrow> count_list (map fst (new_embedder_calls st0 stn)) esmiles \<le> 1
           \<and> (count_list (map fst (new_embedder_calls st0 stn)) esmiles = 0
               \<or> fetch_embedding_data st0 esmiles = None)))"
proof -
  have one_sampling:
    "BaseSampleMetric_find_similars_smiles sself st smiles n r u s = Inr (gs, st') \<longrightarrow>
      (sampler_calls st' = sampler_calls st \<longleftrightarrow>
         (\<exists>g gs'. fetch_sampling_data st (class_name (metric_inferrer sself)) smiles n r u s
                    = Some (g # gs')))
      \<and> (sampler_calls st' = sampler_calls st \<or>
           sampler_calls st' = sampler_calls st @ [(smiles, n, r, u, s)])
      \<and> (fetch_sampling_data st (class_name (metric_inferrer sself)) smiles n r u s = None \<longrightarrow>
           fetch_sampling_data st' (class_name (metric_inferrer sself)) smiles n r u s = Some gs)"
    using find_similars_lookup[of sself st smiles n r u s gs st'] by blast
  have one_embedding:
    "BaseEmbeddingMetric_find_embedding eself est esmiles max_seq_len = Inr ((emb, d), est') \<longrightarrow>
      (embedder_calls est' = embedder_calls est \<longleftrightarrow>
         (\<exists>emb0 d0. fetch_embedding_data est esmiles = Some (emb0, d0) \<and> length d0 \<noteq> 1))
      \<and> (embedder_calls est' = embedder_calls est \<or>
           embedder_calls est' = embedder_calls est @ [(esmiles, max_seq_len)])
      \<and> (fetch_embedding_data est esmiles = None \<longrightarrow>
           fetch_embedding_data est' esmiles = Some (emb, d))"
    using find_embedding_lookup[of eself est esmiles max_seq_len emb d est'] by blast
  have run:
    "lookups sself eself st0 qs = Inr stn \<longrightarrow>
      (fetch_sampling_data st0 (class_name (metric_inferrer sself)) smiles n r u s \<noteq> Some []
         \<and> (\<forall>res. find_similars_smiles (metric_inferrer sself) smiles n r u s = Inr res
                    \<longrightarrow> SMILES res \<noteq> [])
       \<longrightarrow> count_list (new_sampler_calls st0 stn) (smiles, n, r, u, s) \<le> 1
           \<and> (count_list (new_sampler_calls st0 stn) (smiles, n, r, u, s) = 0
               \<or> fetch_sampling_data st0 (class_name (metric_inferrer sself)) smiles n r u s
                  = None))
      \<and> ((\<forall>emb0 d0. fetch_embedding_data st0 esmiles = Some (emb0, d0) \<longrightarrow> length d0 \<noteq> 1)
         \<and> (\<forall>m res. smiles_to_embedding (emb_inferrer eself) esmiles m = Inr res
                      \<longrightarrow> length (dim res) \<noteq> 1)
       \<longrightarrow> count_list (map fst (new_embedder_calls st0 stn)) esmiles \<le> 1
           \<and> (count_list (map fst (new_embedder_calls st0 stn)) esmiles = 0
               \<or> fetch_embedding_data st0 esmiles = None))"
  proof
    assume rn: "lookups sself eself st0 qs = Inr stn"
    show "(fetch_sampling_data st0 (class_name (metric_inferrer sself)) smiles n r u s \<noteq> Some []
         \<and> (\<forall>res. find_similars_smiles (metric_inferrer sself) smiles n r u s = Inr res
                    \<longrightarrow> SMILES res \<noteq> [])
       \<longrightarrow> count_list (new_sampler_calls st0 stn) (smiles, n, r, u, s) \<le> 1
           \<and> (count_list (new_sampler_calls st0 stn) (smiles, n, r, u, s) = 0
               \<or> fetch_sampling_data st0 (class_name (metric_inferrer sself)) smiles n r u s
                  = None))
      \<and> ((\<forall>emb0 d0. fetch_embedding_data st0 esmiles = Some (emb0, d0) \<longrightarrow> length d0 \<noteq> 1)
         \<and> (\<forall>m res. smiles_to_embedding (emb_inferrer eself) esmiles m = Inr res
                      \<longrightarrow> length (dim res) \<noteq> 1)
       \<longrightarrow> count_list (map fst (new_embedder_calls st0 stn)) esmiles \<le> 1
           \<and> (count_list (map fst (new_embedder_calls st0 stn)) esmiles = 0
               \<or> fetch_embedding_data st0 esmiles = None))"
    proof
      show "fetch_sampling_data st0 (class_name (metric_inferrer sself)) smiles n r u s \<noteq> Some []
         \<and> (\<forall>res. find_similars_smiles (metric_inferrer sself) smiles n r u s = Inr res
                    \<longrightarrow> SMILES res \<noteq> [])
       \<longrightarrow> count_list (new_sampler_calls st0 stn) (smiles, n, r, u, s) \<le> 1
           \<and> (count_list (new_sampler_calls st0 stn) (smiles, n, r, u, s) = 0
               \<or> fetch_sampling_data st0 (class_name (metric_inferrer sself)) smiles n r u s
                  = None)"
        by (rule impI) (rule lookups_sampling_at_most_once[OF rn])
      show "(\<forall>emb0 d0. fetch_embedding_data st0 esmiles = Some (emb0, d0) \<longrightarrow> length d0 \<noteq> 1)
         \<and> (\<forall>m res. smiles_to_embedding (emb_inferrer eself) esmiles m = Inr res
                      \<longrightarrow> length (dim res) \<noteq> 1)
       \<longrightarrow> count_list (map fst (new_embedder_calls st0 stn)) esmiles \<le> 1
           \<and> (count_list (map fst (new_embedder_calls st0 stn)) esmiles = 0
               \<or> fetch_embedding_data st0 esmiles = None)"
        by (rule impI) (rule lookups_embedding_at_most_once[OF rn])
    qed
  qed
  from one_sampling one_embedding run show ?thesis by (intro conjI)
qed

text \<open>In the scenario, from the empty cache: the first sampling lookup for \<open>CCO\<close> and the
  first embedding lookup for \<open>CCO\<close> each call the client once and leave the result in the
  cache; in the run of six lookups over two sampling fingerprints and one embedding
  fingerprint the client is called once for each of the three.\<close>

theorem cache_guards_client_witness:
  "BaseSampleMetric_find_similars_smiles (scenario_metric Unique) empty_state ''CCO'' 3 (1 / 10)
       False False
     = Inr ([''CCO'', ''CCC'', ''invalid_string'', ''CCO''], after_first_sample)
   \<and> sampler_calls after_first_sample
     = sampler_calls empty_state @ [(''CCO'', 3, 1 / 10, False, False)]
   \<and> fetch_sampling_data after_first_sample ''StubInferrer'' ''CCO'' 3 (1 / 10) False False
     = Some [''CCO'', ''CCC'', ''invalid_string'', ''CCO'']
   \<and> BaseEmbeddingMetric_find_embedding scenario_embedding_metric empty_state ''CCO'' (Some 4)
     = Inr (([1, 2, 3, 4], [2, 2]), after_first_embedding)
   \<and> embedder_calls after_first_embedding = embedder_calls empty_state @ [(''CCO'', Some 4)]
   \<and> fetch_embedding_data after_first_embedding ''CCO'' = Some ([1, 2, 3, 4], [2, 2])
   \<and> map_sum id (\<lambda>st. (sampler_calls st, embedder_calls st))
       (lookups (scenario_metric Unique) scenario_embedding_metric empty_state scenario_requests)
     = Inr ([(''CCO'', 3, 1 / 10, False, False), (''CCN'', 3, 1 / 10, False, False)],
            [(''CCO'', Some 4)])
   \<and> map_sum id (\<lambda>st. (count_list (new_sampler_calls empty_state st)
                           (''CCO'', 3, 1 / 10, False, False),
                         count_list (map fst (new_embedder_calls empty_state st)) ''CCO''))
       (lookups (scenario_metric Unique) scenario_embedding_metric empty_state scenario_requests)
     = Inr (1, 1)"
proof -
  note s = scenario_find[of Unique]
  note e = scenario_find_embedding
  have name: "class_name (metric_inferrer (scenario_metric Unique)) = ''StubInferrer''"
    by (simp add: scenario_metric_def scenario_inferrer_def)
  have miss: "fetch_sampling_data empty_state ''StubInferrer'' ''CCO'' 3 (1 / 10) False False
                = None"
    by (simp add: fetch_sampling_data_def empty_state_def)
  have emiss: "fetch_embedding_data empty_state ''CCO'' = None"
    by (simp add: fetch_embedding_data_def empty_state_def)
  have client: "\<forall>res. find_similars_smiles (metric_inferrer (scenario_metric Unique))
                         ''CCO'' 3 (1 / 10) False False = Inr res \<longrightarrow> SMILES res \<noteq> []"
    by (auto simp: scenario_metric_def scenario_inferrer_def)
  have eclient: "\<forall>m res. smiles_to_embedding (emb_inferrer scenario_embedding_metric) ''CCO'' m
                           = Inr res \<longrightarrow> length (dim res) \<noteq> 1"
    by (auto simp: scenario_embedding_metric_def scenario_inferrer_def)
  from scenario_run_calls obtain stn where
    run: "lookups (scenario_metric Unique) scenario_embedding_metric empty_state
            scenario_requests = Inr stn"
    and sc: "sampler_calls stn
               = [(''CCO'', 3, 1 / 10, False, False), (''CCN'', 3, 1 / 10, False, False)]"
    and ec: "embedder_calls stn = [(''CCO'', Some 4)]"
    by (cases "lookups (scenario_metric Unique) scenario_embedding_metric empty_state
                 scenario_requests") auto
  note c = cache_guards_client[where sself = "scenario_metric Unique" and st = empty_state
      and smiles = "''CCO''" and n = 3 and r = "1 / 10" and u = False and s = False
      and gs = "[''CCO'', ''CCC'', ''invalid_string'', ''CCO'']" and st' = after_first_sample
      and eself = scenario_embedding_metric and est = empty_state and esmiles = "''CCO''"
      and max_seq_len = "Some 4" and emb = "[1, 2, 3, 4]" and d = "[2, 2]"
      and est' = after_first_embedding and ?st0.0 = empty_state and qs = scenario_requests
      and stn = stn]
  from c s miss name have a1: "sampler_calls after_first_sample
     = sampler_calls empty_state @ [(''CCO'', 3, 1 / 10, False, False)]"
    and a2: "fetch_sampling_data after_first_sample ''StubInferrer'' ''CCO'' 3 (1 / 10)
               False False = Some [''CCO'', ''CCC'', ''invalid_string'', ''CCO'']"
    by auto
  from c e emiss have b1: "embedder_calls after_first_embedding
     = embedder_calls empty_state @ [(''CCO'', Some 4)]"
    and b2: "fetch_embedding_data after_first_embedding ''CCO'' = Some ([1, 2, 3, 4], [2, 2])"
    by auto
  from c run miss name client have
    "count_list (new_sampler_calls empty_state stn) (''CCO'', 3, 1 / 10, False, False) \<le> 1"
    by auto
  moreover have
    "count_list (new_sampler_calls empty_state stn) (''CCO'', 3, 1 / 10, False, False) \<ge> 1"
    by (simp add: new_sampler_calls_def sc empty_state_def)
  ultimately have n1:
    "count_list (new_sampler_calls empty_state stn) (''CCO'', 3, 1 / 10, False, False) = 1"
    by simp
  from c run emiss eclient have
    "count_list (map fst (new_embedder_calls empty_state stn)) ''CCO'' \<le> 1"
    by auto
  moreover have "count_list (map fst (new_embedder_calls empty_state stn)) ''CCO'' \<ge> 1"
    by (simp add: new_embedder_calls_def ec empty_state_def)
  ultimately have n2: "count_list (map fst (new_embedder_calls empty_state stn)) ''CCO'' = 1"
    by simp
  from s e a1 a2 b1 b2 scenario_run_calls n1 n2 run show ?thesis by simp
qed

text \<open>The claim as first stated fails on the embedding path: the fetch for \<open>CCO\<close> in the
  stale cache returns a stored result, and the lookup still calls the client.\<close>

theorem stored_result_still_calls_client:
  "fetch_embedding_data stale_state ''CCO'' = Some ([5, 6, 7], [3])
   \<and> map_option embedder_calls
       (final_state (BaseEmbeddingMetric_find_embedding scenario_embedding_metric stale_state
                       ''CCO'' (Some 4)))
     = Some (embedder_calls stale_state @ [(''CCO'', Some 4)])"
  by (simp add: stale_fetch stale_find final_state_def after_stale_lookup_def
        insert_embedding_frame)

text \<open>
  C10. A cached embedding whose dimensionality descriptor has length exactly 1 does not
  satisfy the fetch: \<open>_find_embedding\<close> calls the inference client again and, when the
  client returns, inserts the recomputed result into the cache and returns it.
\<close>

theorem find_embedding_dim1_is_miss:
  assumes "fetch_embedding_data st smiles = Some (emb, d)" and "length d = 1"
  shows "BaseEmbeddingMetric_find_embedding self st smiles max_seq_len =
           (case smiles_to_embedding (emb_inferrer self) smiles max_seq_len of
              Inl e \<Rightarrow> Inl e
            | Inr r \<Rightarrow>
                Inr ((embedding r, dim r),
                     insert_embedding_data
                       (st\<lparr>embedder_calls := embedder_calls st @ [(smiles, max_seq_len)]\<rparr>)
                       smiles (embedding r) (dim r)))"
  using assms
  by (simp add: BaseEmbeddingMetric_find_embedding_def Let_def split: sum.splits)

theorem find_embedding_dim1_is_miss_witness:
  "fetch_embedding_data stale_state ''CCO'' = Some ([5, 6, 7], [3]) \<and> length [3::int] = 1
   \<and> BaseEmbeddingMetric_find_embedding scenario_embedding_metric stale_state ''CCO'' (Some 4)
       = Inr (([1, 2, 3, 4], [2, 2]),
              insert_embedding_data
                (stale_state\<lparr>embedder_calls := embedder_calls stale_state @ [(''CCO'', Some 4)]\<rparr>)
                ''CCO'' [1, 2, 3, 4] [2, 2])"
proof -
  have l: "length [3::int] = 1" by simp
  have "BaseEmbeddingMetric_find_embedding scenario_embedding_metric stale_state ''CCO'' (Some 4)
       = Inr (([1, 2, 3, 4], [2, 2]),
              insert_embedding_data
                (stale_state\<lparr>embedder_calls := embedder_calls stale_state @ [(''CCO'', Some 4)]\<rparr>)
                ''CCO'' [1, 2, 3, 4] [2, 2])"
    using find_embedding_dim1_is_miss[OF stale_fetch l, of scenario_embedding_metric "Some 4"]
    by (simp add: scenario_embedding_metric_def scenario_inferrer_def)
  with stale_fetch l show ?thesis by blast
qed

section \<open>Nearest-neighbour correlation: the reported \<open>top_k\<close>\<close>

lemma encode_many_loop_length:
  "encode_many_loop xpy self z a m xs embs st = Inr (res, st') \<Longrightarrow>
     length res = length embs + length xs"
  by (induction xs arbitrary: embs st) (auto split: sum.splits)

text \<open>
  C9. When \<open>NearestNeighborCorrelation.calculate\<close> is invoked without a \<open>top_k\<close> value, the
  result it returns reports \<open>top_k\<close> as the number of dataset molecules minus 1.
\<close>

theorem default_top_k:
  assumes "NearestNeighborCorrelation_calculate xpy self st None = Inr (res, st')"
  shows "nnc_top_k res = int (length (smiles_dataset self)) - 1"
proof -
  from assms obtain embs st1 where
    e: "encode_many xpy self st None True False = Inr (embs, st1)"
    and k: "nnc_top_k res = int (length embs) - 1"
    by (auto simp: NearestNeighborCorrelation_calculate_def Let_def split: sum.splits)
  from e have "length embs = length (smiles_dataset self)"
    using encode_many_loop_length[of xpy self True False _ "smiles_dataset self" "[]" st embs st1]
    by (simp add: encode_many_def Let_def)
  with k show ?thesis by simp
qed

text \<open>The three-molecule dataset: the run returns and reports \<open>top_k = 2\<close>.\<close>

theorem default_top_k_witness:
  "returned (NearestNeighborCorrelation_calculate scenario_xpy scenario_embedding_metric
               empty_state None)
     = Some \<lparr>nnc_name = ''nearest neighbor correlation'', nnc_value = Finite 1, nnc_top_k = 2\<rparr>
   \<and> int (length (smiles_dataset scenario_embedding_metric)) - 1 = 2"
proof -
  have r: "returned (NearestNeighborCorrelation_calculate scenario_xpy scenario_embedding_metric
               empty_state None)
     = Some \<lparr>nnc_name = ''nearest neighbor correlation'', nnc_value = Finite 1, nnc_top_k = 2\<rparr>"
    by (simp add: returned_def NearestNeighborCorrelation_calculate_def encode_many_def
          encode_def BaseEmbeddingMetric_find_embedding_def fetch_embedding_data_def
          insert_embedding_data_def NearestNeighborCorrelation_calculate_metric_def
          np_nanmean_def scenario_xpy_def scenario_embedding_metric_def scenario_inferrer_def
          empty_state_def Let_def)
  then obtain res st' where
    c: "NearestNeighborCorrelation_calculate scenario_xpy scenario_embedding_metric
          empty_state None = Inr (res, st')"
    by (auto simp: returned_def split: sum.splits)
  from default_top_k[OF c] have "nnc_top_k res = 2"
    by (simp add: scenario_embedding_metric_def)
  moreover have "int (length (smiles_dataset scenario_embedding_metric)) - 1 = 2"
    by (simp add: scenario_embedding_metric_def)
  ultimately show ?thesis using r by simp
qed

section \<open>Modelability: the grid search and the ratio\<close>




lemma toy_search_keep:
  "gpu_gridsearch_cv toy_sklearn (toy_modelability True) fresh_estimator [0, 1]
       [[0], [2]] [0, 2]
     = Inr ((Finite 2, Some 1, Some [0, 2]), \<lparr>est_params = 1, est_fitted = Some (1, 0)\<rparr>)"
  by (simp add: gpu_gridsearch_cv_def gridsearch_step_def set_params_def take_idx_def
        estimator_fit_def estimator_predict_def np_nanmean_def toy_sklearn_def
        toy_modelability_def fresh_estimator_def Let_def)

text \<open>An error raised by \<open>fit\<close> on the first fold leaves the loop body.\<close>

lemma gridsearch_step_fit_error:
  assumes "KFold_split sk (n_splits self) xdata ydata = Inr ((train_idx, test_idx) # folds)"
    and "take_idx xdata train_idx = Inr xtrain" and "take_idx xdata test_idx = Inr xtest"
    and "take_idx ydata train_idx = Inr ytrain" and "take_idx ydata test_idx = Inr ytest"
    and "fit_fn sk param xtrain ytrain = Inl e"
  shows "gridsearch_step sk self xdata ydata param best est = Inl e"
  using assms
  by (cases best) (simp add: gridsearch_step_def set_params_def estimator_fit_def Let_def)




lemma estimator_fit_params:
  "estimator_fit sk est xtrain ytrain = Inr est' \<Longrightarrow>
     est_params est' = est_params est
     \<and> (\<exists>m. fit_fn sk (est_params est) xtrain ytrain = Inr m \<and> est_fitted est' = Some m)"
  by (auto simp: estimator_fit_def split: sum.splits)

lemma kfold_loop_params:
  "kfold_loop sk xdata ydata folds est acc = Inr (mses, est') \<Longrightarrow> est_params est' = est_params est"
proof (induction folds arbitrary: est acc)
  case Nil
  then show ?case by simp
next
  case (Cons f folds)
  obtain tr te where f: "f = (tr, te)" by (cases f)
  from Cons.prems obtain xtrain ytrain est1 mse where
    fit: "estimator_fit sk est xtrain ytrain = Inr est1"
    and rest: "kfold_loop sk xdata ydata folds est1 (acc @ [mse]) = Inr (mses, est')"
    by (auto simp: f split: sum.splits)
  from Cons.IH[OF rest] estimator_fit_params[OF fit] show ?case by simp
qed

lemma kfold_loop_fitted:
  "kfold_loop sk xdata ydata folds est acc = Inr (mses, est') \<Longrightarrow> folds \<noteq> [] \<Longrightarrow>
     \<exists>xtrain ytrain m.
        take_idx xdata (fst (last folds)) = Inr xtrain
        \<and> take_idx ydata (fst (last folds)) = Inr ytrain
        \<and> fit_fn sk (est_params est) xtrain ytrain = Inr m
        \<and> est_fitted est' = Some m"
proof (induction folds arbitrary: est acc)
  case Nil
  then show ?case by simp
next
  case (Cons f folds)
  obtain tr te where f: "f = (tr, te)" by (cases f)
  from Cons.prems(1) obtain xtrain ytrain est1 mse where
    x: "take_idx xdata tr = Inr xtrain" and y: "take_idx ydata tr = Inr ytrain"
    and fit: "estimator_fit sk est xtrain ytrain = Inr est1"
    and rest: "kfold_loop sk xdata ydata folds est1 (acc @ [mse]) = Inr (mses, est')"
    by (auto simp: f split: sum.splits)
  show ?case
  proof (cases "folds = []")
    case True
    with rest have "est' = est1" by simp
    with estimator_fit_params[OF fit] x y True f show ?thesis by auto
  next
    case False
    from Cons.IH[OF rest False] estimator_fit_params[OF fit] False show ?thesis by auto
  qed
qed

lemma np_nanmean_Nil: "np_nanmean [] = NaN"
  by (simp add: np_nanmean_def)

lemma gridsearch_step_pred:
  assumes "gridsearch_step sk self xdata ydata param (bs, bp, bpred) est = Inr ((bs', bp', bpred'), est')"
    and "return_predictions self"
  shows "(bs', bp', bpred') = (bs, bp, bpred)
       \<or> (bp' = Some param
           \<and> (\<exists>p. bpred' = Some p \<and> last_fold_predictions sk self param xdata ydata = Inr p))"
proof -
  from assms(1) obtain folds kfold_mse est2 where
    k: "KFold_split sk (n_splits self) xdata ydata = Inr folds"
    and l: "kfold_loop sk xdata ydata folds (set_params est param) [] = Inr (kfold_mse, est2)"
    by (auto simp: gridsearch_step_def Let_def split: sum.splits)
  show ?thesis
  proof (cases "np_less (np_nanmean kfold_mse) bs")
    case False
    with assms(1) k l show ?thesis by (simp add: gridsearch_step_def Let_def)
  next
    case True
    have ne: "folds \<noteq> []"
    proof
      assume "folds = []"
      with l have "kfold_mse = []" by simp
      with True show False by (simp add: np_nanmean_Nil)
    qed
    from assms True k l obtain pred where
      p: "estimator_predict sk est2 xdata = Inr pred"
      and r: "bp' = Some param" "bpred' = Some pred"
      by (auto simp: gridsearch_step_def Let_def split: sum.splits)
    from kfold_loop_fitted[OF l ne] obtain xtrain ytrain m where
      "take_idx xdata (fst (last folds)) = Inr xtrain"
      "take_idx ydata (fst (last folds)) = Inr ytrain"
      "fit_fn sk param xtrain ytrain = Inr m" "est_fitted est2 = Some m"
      by (auto simp: set_params_def)
    with p k ne have "last_fold_predictions sk self param xdata ydata = Inr pred"
      by (simp add: last_fold_predictions_def estimator_predict_def)
    with r show ?thesis by simp
  qed
qed

lemma gridsearch_loop_pred:
  assumes "gridsearch_loop sk self xdata ydata ps (bs, bp, bpred) est = Inr ((bs', bp', bpred'), est')"
    and "return_predictions self"
    and "\<And>q. bp = Some q \<Longrightarrow> \<exists>p. bpred = Some p \<and> last_fold_predictions sk self q xdata ydata = Inr p"
    and "bp' = Some q"
  shows "\<exists>p. bpred' = Some p \<and> last_fold_predictions sk self q xdata ydata = Inr p"
  using assms
proof (induction ps arbitrary: bs bp bpred est)
  case Nil
  then show ?case by simp
next
  case (Cons a ps)
  from Cons.prems(1) obtain bs1 bp1 bpred1 est1 where
    s: "gridsearch_step sk self xdata ydata a (bs, bp, bpred) est = Inr ((bs1, bp1, bpred1), est1)"
    and l: "gridsearch_loop sk self xdata ydata ps (bs1, bp1, bpred1) est1 = Inr ((bs', bp', bpred'), est')"
    by (auto split: sum.splits)
  have inv: "\<And>q. bp1 = Some q \<Longrightarrow>
      \<exists>p. bpred1 = Some p \<and> last_fold_predictions sk self q xdata ydata = Inr p"
    using gridsearch_step_pred[OF s Cons.prems(2)] Cons.prems(3) by auto
  from Cons.IH[OF l Cons.prems(2) inv Cons.prems(4)] show ?case by simp
qed

text \<open>The score a grid search returns is the cross-validation score of the combination
  it returns, and no combination of the grid scores lower.\<close>

lemma estimator_fit_eq:
  fixes est est0 :: "('p, 'm) estimator"
  shows "est_params est = est_params est0 \<Longrightarrow>
     estimator_fit sk est xtrain ytrain = estimator_fit sk est0 xtrain ytrain"
  by (cases est, cases est0) (simp add: estimator_fit_def split: sum.splits)

lemma kfold_loop_indep:
  fixes est est0 :: "('p, 'm) estimator"
  assumes "est_params est = est_params est0"
  shows "map_sum id fst (kfold_loop sk xdata ydata folds est acc)
       = map_sum id fst (kfold_loop sk xdata ydata folds est0 acc)"
proof (cases folds)
  case Nil
  then show ?thesis by simp
next
  case (Cons f fs)
  obtain tr te where f: "f = (tr, te)" by (cases f)
  show ?thesis
    by (simp add: Cons f estimator_fit_eq[OF assms] cong: sum.case_cong)
qed

lemma np_less_chain:
  "\<not> np_less a b \<Longrightarrow> np_less c b \<Longrightarrow> \<not> np_less a c"
  by (cases a; cases b; cases c) auto

lemma np_less_irrefl: "\<not> np_less a a"
  by (cases a) auto

lemma gridsearch_step_score:
  assumes "gridsearch_step sk self xdata ydata param (bs, bp, bpred) est = Inr ((bs', bp', bpred'), est')"
  shows "\<exists>s. cv_score sk self param xdata ydata = Inr s
           \<and> ((np_less s bs \<and> bs' = s \<and> bp' = Some param) \<or> (\<not> np_less s bs \<and> bs' = bs \<and> bp' = bp))"
proof -
  from assms obtain folds kfold_mse est2 where
    k: "KFold_split sk (n_splits self) xdata ydata = Inr folds"
    and l: "kfold_loop sk xdata ydata folds (set_params est param) [] = Inr (kfold_mse, est2)"
    by (auto simp: gridsearch_step_def Let_def split: sum.splits)
  have "map_sum id fst (kfold_loop sk xdata ydata folds \<lparr>est_params = param, est_fitted = None\<rparr> [])
      = map_sum id fst (kfold_loop sk xdata ydata folds (set_params est param) [])"
    by (rule kfold_loop_indep) (simp add: set_params_def)
  with l have s: "cv_score sk self param xdata ydata = Inr (np_nanmean kfold_mse)"
    by (auto simp: cv_score_def k split: sum.splits)
  show ?thesis
    using assms k l s
    by (auto simp: gridsearch_step_def Let_def split: sum.splits if_splits)
qed

lemma gridsearch_loop_score:
  assumes "gridsearch_loop sk self xdata ydata ps (bs, bp, bpred) est = Inr ((bs', bp', bpred'), est')"
  shows "(\<forall>q \<in> set ps. \<exists>s. cv_score sk self q xdata ydata = Inr s \<and> \<not> np_less s bs')
       \<and> (\<forall>a. \<not> np_less a bs \<longrightarrow> \<not> np_less a bs')
       \<and> ((bs' = bs \<and> bp' = bp) \<or> (\<exists>q \<in> set ps. bp' = Some q \<and> cv_score sk self q xdata ydata = Inr bs'))"
  using assms
proof (induction ps arbitrary: bs bp bpred est)
  case Nil
  then show ?case by simp
next
  case (Cons p ps)
  from Cons.prems obtain bs1 bp1 bpred1 est1 where
    s: "gridsearch_step sk self xdata ydata p (bs, bp, bpred) est = Inr ((bs1, bp1, bpred1), est1)"
    and l: "gridsearch_loop sk self xdata ydata ps (bs1, bp1, bpred1) est1 = Inr ((bs', bp', bpred'), est')"
    by (auto split: sum.splits)
  note ih = Cons.IH[OF l]
  from gridsearch_step_score[OF s] obtain sc where
    sc: "cv_score sk self p xdata ydata = Inr sc"
    and d: "(np_less sc bs \<and> bs1 = sc \<and> bp1 = Some p) \<or> (\<not> np_less sc bs \<and> bs1 = bs \<and> bp1 = bp)"
    by blast
  have mono1: "\<forall>a. \<not> np_less a bs \<longrightarrow> \<not> np_less a bs1"
    using d np_less_chain by blast
  have p1: "\<not> np_less sc bs1" using d np_less_irrefl by auto
  have a: "\<forall>q \<in> set (p # ps). \<exists>s. cv_score sk self q xdata ydata = Inr s \<and> \<not> np_less s bs'"
    using ih sc p1 by auto
  have b: "\<forall>a. \<not> np_less a bs \<longrightarrow> \<not> np_less a bs'"
    using ih mono1 by blast
  have c: "(bs' = bs \<and> bp' = bp)
         \<or> (\<exists>q \<in> set (p # ps). bp' = Some q \<and> cv_score sk self q xdata ydata = Inr bs')"
    using ih d sc by auto
  from a b c show ?case by blast
qed

lemma gridsearch_best_score:
  assumes "gpu_gridsearch_cv sk self est param_dict xdata ydata = Inr ((score, best_param, pred), est')"
  shows "(\<forall>q \<in> set (ParameterGrid sk param_dict).
            \<exists>s. cv_score sk self q xdata ydata = Inr s \<and> \<not> np_less s score)
       \<and> (\<forall>param. best_param = Some param \<longrightarrow>
            param \<in> set (ParameterGrid sk param_dict)
            \<and> cv_score sk self param xdata ydata = Inr score)"
proof -
  from assms have
    l: "gridsearch_loop sk self xdata ydata (ParameterGrid sk param_dict) (PosInf, None, None) est
       = Inr ((score, best_param, pred), est')"
    by (simp add: gpu_gridsearch_cv_def split: if_splits)
  from gridsearch_loop_score[OF l] show ?thesis by auto
qed

text \<open>
  C5 (as amended). When prediction retention is enabled, the predictions returned by the
  grid search for a feature set are those of the estimator as the cross-validation of the
  winning hyperparameter combination left it, fitted on the training rows of the last
  fold, applied to the full data; the estimator is not refitted on the full data. The
  winning combination is the one whose cross-validation score is the returned best
  score, and no combination of the grid scores lower.
\<close>

theorem gridsearch_predictions:
  assumes "return_predictions self"
    and "gpu_gridsearch_cv sk self est param_dict xdata ydata = Inr ((score, Some param, pred), est')"
  shows "(\<exists>p. pred = Some p \<and> last_fold_predictions sk self param xdata ydata = Inr p)
       \<and> cv_score sk self param xdata ydata = Inr score
       \<and> (\<forall>q \<in> set (ParameterGrid sk param_dict).
             \<exists>s. cv_score sk self q xdata ydata = Inr s \<and> \<not> np_less s score)"
proof -
  from assms(2) have
    "gridsearch_loop sk self xdata ydata (ParameterGrid sk param_dict) (PosInf, None, None) est
       = Inr ((score, Some param, pred), est')"
    by (simp add: gpu_gridsearch_cv_def split: if_splits)
  from gridsearch_loop_pred[OF this assms(1)]
  have "\<exists>p. pred = Some p \<and> last_fold_predictions sk self param xdata ydata = Inr p"
    by simp
  with gridsearch_best_score[OF assms(2)] show ?thesis by simp
qed

text \<open>The toy estimator with the grid 0, 1: the combination 1 wins with score 2 (the
  combination 0 scores 4), and the retained predictions are 0 and 2.\<close>

theorem gridsearch_predictions_witness:
  "return_predictions (toy_modelability True)
   \<and> gpu_gridsearch_cv toy_sklearn (toy_modelability True) fresh_estimator [0, 1]
       [[0], [2]] [0, 2]
     = Inr ((Finite 2, Some 1, Some [0, 2]), \<lparr>est_params = 1, est_fitted = Some (1, 0)\<rparr>)
   \<and> last_fold_predictions toy_sklearn (toy_modelability True) 1 [[0], [2]] [0, 2]
     = Inr [0, 2]
   \<and> cv_score toy_sklearn (toy_modelability True) 1 [[0], [2]] [0, 2] = Inr (Finite 2)
   \<and> cv_score toy_sklearn (toy_modelability True) 0 [[0], [2]] [0, 2] = Inr (Finite 4)
   \<and> \<not> np_less (Finite 4) (Finite 2)"
proof -
  have k: "return_predictions (toy_modelability True)"
    by (simp add: toy_modelability_def)
  note g = gridsearch_predictions[OF k toy_search_keep]
  from g have p: "last_fold_predictions toy_sklearn (toy_modelability True) 1 [[0], [2]] [0, 2]
          = Inr [0, 2]"
    by simp
  from g have s1: "cv_score toy_sklearn (toy_modelability True) 1 [[0], [2]] [0, 2]
          = Inr (Finite 2)"
    by simp
  have s0: "cv_score toy_sklearn (toy_modelability True) 0 [[0], [2]] [0, 2] = Inr (Finite 4)"
    by (simp add: cv_score_def take_idx_def estimator_fit_def estimator_predict_def
          np_nanmean_def toy_sklearn_def toy_modelability_def)
  from k toy_search_keep p s1 s0 show ?thesis by simp
qed

text \<open>The claim as first stated fails: the full data are rows 0 and 2 with targets 0 and
  2; the predictions retained for the winning combination are 0 and 2, those of the
  estimator refitted on the full data with that combination are 1 and 3.\<close>

theorem predictions_not_refit:
  "gpu_gridsearch_cv toy_sklearn (toy_modelability True) fresh_estimator [0, 1]
       [[0], [2]] [0, 2]
     = Inr ((Finite 2, Some 1, Some [0, 2]), \<lparr>est_params = 1, est_fitted = Some (1, 0)\<rparr>)
   \<and> refit_predictions toy_sklearn 1 [[0], [2]] [0, 2] = Inr [1, 3]"
proof -
  have "refit_predictions toy_sklearn 1 [[0], [2]] [0, 2] = Inr [1, 3]"
    by (simp add: refit_predictions_def toy_sklearn_def)
  with toy_search_keep show ?thesis by simp
qed



end
